theory Spec2Isabelle
  imports Main "HOL-Library.AList" "HOL-Library.Sublist"
begin

section \<open>JavaScript values\<close>

text \<open>
  The client passes option bags and parsed JSON around untyped, and decides on them with
  JavaScript's own tests (truthiness, \<^verbatim>\<open>=== undefined\<close>, \<^verbatim>\<open>!== null\<close>, \<^verbatim>\<open>??\<close>,
  \<^verbatim>\<open>||\<close>). The values are modelled as a datatype: the values of JSON, \<^verbatim>\<open>undefined\<close>,
  and the Numbers that JSON cannot write; functions, symbols, BigInts and objects with
  methods of their own are not among them. An object is the list of its own enumerable
  properties in the order JavaScript enumerates them. Strings are byte strings (UTF-8).

  A Number is NaN, an infinity (with its sign), or a sign with a decimal mantissa \<open>m\<close>
  and exponent \<open>e\<close>, standing for \<open>m \<times> 10\<^sup>e\<close>: every finite Number is the shortest decimal
  that denotes it, which is also what \<^verbatim>\<open>String\<close> prints. The client reads a number only
  through its truthiness and its string.
\<close>

datatype jsnum = NumNaN | NumInf bool | NumDec bool nat int

datatype jsval =
    JUndefined
  | JNull
  | JBool bool
  | JNum jsnum
  | JStr string
  | JArr "jsval list"
  | JObj "(string \<times> jsval) list"

type_synonym jsobj = "(string \<times> jsval) list"

text \<open>ToBoolean: among the numbers, the zeros and NaN are falsy.\<close>

fun truthy :: "jsval \<Rightarrow> bool" where
  "truthy JUndefined = False"
| "truthy JNull = False"
| "truthy (JBool b) = b"
| "truthy (JNum n) = (case n of NumNaN \<Rightarrow> False | NumInf neg \<Rightarrow> True | NumDec neg m e \<Rightarrow> m \<noteq> 0)"
| "truthy (JStr s) = (s \<noteq> [])"
| "truthy (JArr xs) = True"
| "truthy (JObj kvs) = True"

text \<open>\<^verbatim>\<open>a ?? b\<close> and \<^verbatim>\<open>a || b\<close>.\<close>

definition nullish :: "jsval \<Rightarrow> jsval \<Rightarrow> jsval" where
  "nullish a b = (if a = JUndefined \<or> a = JNull then b else a)"

definition js_or :: "jsval \<Rightarrow> jsval \<Rightarrow> jsval" where
  "js_or a b = (if truthy a then a else b)"

text \<open>\<^verbatim>\<open>typeof v === "object"\<close>: objects, arrays and null.\<close>

fun typeof_object :: "jsval \<Rightarrow> bool" where
  "typeof_object JNull = True"
| "typeof_object (JArr xs) = True"
| "typeof_object (JObj kvs) = True"
| "typeof_object v = False"

subsection \<open>Numbers and strings\<close>

definition digit_char :: "nat \<Rightarrow> char" where
  "digit_char d = ''0123456789'' ! d"

fun show_nat :: "nat \<Rightarrow> string" where
  "show_nat n = (if n < 10 then [digit_char n] else show_nat (n div 10) @ [digit_char (n mod 10)])"

declare show_nat.simps [simp del]

text \<open>The Number of an integer.\<close>

definition int_num :: "int \<Rightarrow> jsnum" where
  "int_num i = NumDec (i < 0) (nat \<bar>i\<bar>) 0"

text \<open>
  \<^verbatim>\<open>Number::toString\<close> of ECMAScript, in base 10. The mantissa is first brought to the
  form without trailing zeros. With \<open>k\<close> digits and the decimal point after the
  \<open>n\<close>-th digit: an integer below \<open>10\<^sup>2\<^sup>1\<close> is its digits and zeros; a point that falls
  inside the digits is written there; up to six zeros may follow \<^verbatim>\<open>0.\<close>; every other
  number is written with an exponent (\<^verbatim>\<open>1e+21\<close>, \<^verbatim>\<open>1.5e-7\<close>).
\<close>

fun strip_zeros :: "nat \<Rightarrow> int \<Rightarrow> nat \<times> int" where
  "strip_zeros m e = (if m \<noteq> 0 \<and> m mod 10 = 0 then strip_zeros (m div 10) (e + 1) else (m, e))"

declare strip_zeros.simps [simp del]

definition dec_String :: "nat \<Rightarrow> int \<Rightarrow> string" where
  "dec_String s e =
     (let ds = show_nat s; k = int (length ds); n = k + e
      in if k \<le> n \<and> n \<le> 21 then ds @ replicate (nat (n - k)) CHR ''0''
         else if 0 < n \<and> n \<le> 21 then take (nat n) ds @ ''.'' @ drop (nat n) ds
         else if - 6 < n \<and> n \<le> 0 then ''0.'' @ replicate (nat (- n)) CHR ''0'' @ ds
         else (if k = 1 then ds else take 1 ds @ ''.'' @ drop 1 ds)
              @ ''e'' @ (if n - 1 < 0 then ''-'' else ''+'') @ show_nat (nat \<bar>n - 1\<bar>))"

fun Number_toString :: "jsnum \<Rightarrow> string" where
  "Number_toString NumNaN = ''NaN''"
| "Number_toString (NumInf neg) = (if neg then ''-Infinity'' else ''Infinity'')"
| "Number_toString (NumDec neg m e) =
     (if m = 0 then ''0''
      else (if neg then ''-'' else []) @ (case strip_zeros m e of (s, e') \<Rightarrow> dec_String s e'))"

fun join_comma :: "string list \<Rightarrow> string" where
  "join_comma [] = []"
| "join_comma [s] = s"
| "join_comma (s # t # ss) = s @ CHR '','' # join_comma (t # ss)"

text \<open>
  \<^verbatim>\<open>String(v)\<close>, which is also what a template literal \<^verbatim>\<open>`${v}`\<close> applies: an array is
  its elements joined by commas, with null and undefined elements shown as nothing; a
  plain object is \<^verbatim>\<open>[object Object]\<close>.
\<close>

fun js_String :: "jsval \<Rightarrow> string" where
  "js_String JUndefined = ''undefined''"
| "js_String JNull = ''null''"
| "js_String (JBool b) = (if b then ''true'' else ''false'')"
| "js_String (JNum n) = Number_toString n"
| "js_String (JStr s) = s"
| "js_String (JArr xs) =
     join_comma (map (\<lambda>x. if x = JUndefined \<or> x = JNull then [] else js_String x) xs)"
| "js_String (JObj kvs) = ''[object Object]''"

subsection \<open>Objects\<close>

text \<open>
  Reading a property: the value of an own property, \<^verbatim>\<open>undefined\<close> otherwise. None of
  the names the client reads (\<^verbatim>\<open>status\<close>, \<^verbatim>\<open>message\<close>, \<^verbatim>\<open>org_id\<close>, \<^verbatim>\<open>results\<close>,
  \<^verbatim>\<open>type\<close>, \<^verbatim>\<open>name\<close>, ...) is a built-in property of arrays, strings or prototypes,
  so on a value that is not a plain object the read gives \<^verbatim>\<open>undefined\<close>. Reading a
  property of null or undefined throws; that is written out where the client does it.
\<close>

definition obj_get :: "jsobj \<Rightarrow> string \<Rightarrow> jsval" where
  "obj_get ob k = (case map_of ob k of None \<Rightarrow> JUndefined | Some v \<Rightarrow> v)"

fun js_prop :: "jsval \<Rightarrow> string \<Rightarrow> jsval" where
  "js_prop (JObj kvs) k = obj_get kvs k"
| "js_prop v k = JUndefined"

text \<open>
  An array index is a name that is the decimal of a number up to \<open>2\<^sup>3\<^sup>2 - 2\<close>. JavaScript
  enumerates the properties that are array indices first, in ascending order, and the
  others after them in the order of their creation.
\<close>

definition digit_val :: "char \<Rightarrow> nat" where
  "digit_val c = of_char c - 48"

definition array_index :: "string \<Rightarrow> nat option" where
  "array_index k =
     (if k \<noteq> [] \<and> list_all (\<lambda>c. c \<in> set ''0123456789'') k \<and> (length k = 1 \<or> hd k \<noteq> CHR ''0'')
         \<and> foldl (\<lambda>n c. 10 * n + digit_val c) 0 k \<le> 4294967294
      then Some (foldl (\<lambda>n c. 10 * n + digit_val c) 0 k) else None)"

fun insert_index :: "nat \<Rightarrow> string \<times> 'v \<Rightarrow> (string \<times> 'v) list \<Rightarrow> (string \<times> 'v) list" where
  "insert_index n kv [] = [kv]"
| "insert_index n kv (p # ps) =
     (case array_index (fst p) of
        Some m \<Rightarrow> if m < n then p # insert_index n kv ps else kv # p # ps
      | None \<Rightarrow> kv # p # ps)"

text \<open>
  \<^verbatim>\<open>ob[k] = v\<close> keeps the position of an existing property; a new property goes to
  its place among the array indices, or to the end. \<^verbatim>\<open>delete ob[k]\<close> is
  \<^const>\<open>AList.delete\<close>. The spread \<^verbatim>\<open>{ ...a, ...b }\<close> assigns the properties of \<open>b\<close> in
  order on a copy of \<open>a\<close>.
\<close>

definition obj_set :: "string \<Rightarrow> 'v \<Rightarrow> (string \<times> 'v) list \<Rightarrow> (string \<times> 'v) list" where
  "obj_set k v ob =
     (if k \<in> fst ` set ob then AList.update k v ob
      else case array_index k of
             Some n \<Rightarrow> insert_index n (k, v) ob
           | None \<Rightarrow> ob @ [(k, v)])"

definition obj_spread :: "jsobj \<Rightarrow> jsobj \<Rightarrow> jsobj" where
  "obj_spread a b = fold (\<lambda>(k, v) acc. obj_set k v acc) b a"

text \<open>The rest of a destructuring \<^verbatim>\<open>const { k1, k2, ...rest } = ob\<close>.\<close>

definition obj_rest :: "string list \<Rightarrow> jsobj \<Rightarrow> jsobj" where
  "obj_rest ks ob = filter (\<lambda>(k, v). k \<notin> set ks) ob"

subsection \<open>Query strings\<close>

text \<open>
  \<^verbatim>\<open>new URLSearchParams(record).toString()\<close>: the application/x-www-form-urlencoded
  serialisation of the record's entries. A byte is kept when it is an ASCII letter or
  digit or one of \<^verbatim>\<open>* - . _\<close>, a space becomes \<^verbatim>\<open>+\<close>, every other byte becomes
  \<^verbatim>\<open>%XX\<close>.
\<close>

definition hex_char :: "nat \<Rightarrow> char" where
  "hex_char d = ''0123456789ABCDEF'' ! d"

definition urlencode_byte :: "char \<Rightarrow> string" where
  "urlencode_byte c =
     (if c \<in> set ''ABCDEFGHIJKLMNOPQRSTUVWXYZabcdefghijklmnopqrstuvwxyz0123456789*-._'' then [c]
      else if c = CHR '' '' then ''+''
      else [CHR ''%'', hex_char (of_char c div 16), hex_char (of_char c mod 16)])"

definition urlencode :: "string \<Rightarrow> string" where
  "urlencode s = concat (map urlencode_byte s)"

fun join_amp :: "string list \<Rightarrow> string" where
  "join_amp [] = []"
| "join_amp [s] = s"
| "join_amp (s # t # ss) = s @ CHR ''&'' # join_amp (t # ss)"

definition URLSearchParams_toString :: "(string \<times> string) list \<Rightarrow> string" where
  "URLSearchParams_toString ps =
     join_amp (map (\<lambda>(k, v). urlencode k @ CHR ''='' # urlencode v) ps)"

section \<open>Errors\<close>

text \<open>
  What a call can throw: a plain \<^verbatim>\<open>Error\<close> (the local validation errors and the
  timeout), the typed \<^verbatim>\<open>APIError\<close> with its status and its message, a \<^verbatim>\<open>TypeError\<close>
  of the engine on a malformed response, the \<^verbatim>\<open>SyntaxError\<close> of \<^verbatim>\<open>response.json()\<close>,
  and whatever \<^verbatim>\<open>fetch\<close> rejected with (its name and message).
\<close>

datatype js_error =
    Error string
  | APIError nat string
  | TypeError
  | SyntaxError
  | Rejection string string

text \<open>The constructor of \<^verbatim>\<open>APIError\<close> builds the message from the status and its argument.\<close>

definition new_APIError :: "nat \<Rightarrow> string \<Rightarrow> js_error" where
  "new_APIError st msg =
     APIError st (''API request failed with status '' @ show_nat st @ '': '' @ msg)"

section \<open>The transport\<close>

datatype http_method = GET | POST | PUT | DELETE | PATCH

text \<open>
  A request as handed to \<^verbatim>\<open>fetch\<close>. The body is the value the client hands to
  \<^verbatim>\<open>JSON.stringify\<close>; \<open>None\<close> when the request has no body.
\<close>

record request =
  req_url :: string
  req_method :: http_method
  req_headers :: "(string \<times> string) list"
  req_body :: "jsval option"

text \<open>
  A response: its status, its status line, what \<^verbatim>\<open>response.text()\<close> gives and what
  \<^verbatim>\<open>response.json()\<close> gives (\<open>None\<close> when the body is not JSON). \<^verbatim>\<open>response.ok\<close> is a
  status from 200 to 299.
\<close>

record response =
  status :: nat
  statusText :: string
  body_text :: string
  body_json :: "jsval option"

definition resp_ok :: "response \<Rightarrow> bool" where
  "resp_ok r = (200 \<le> status r \<and> status r \<le> 299)"

datatype fetch_outcome =
    Rejected string string
  | Responded response

text \<open>
  The remote service is any function from the exchanges so far and the next request to
  the outcome of that request. The trace lists every request issued, in order, with its
  outcome.
\<close>

type_synonym trace = "(request \<times> fetch_outcome) list"
type_synonym net = "trace \<Rightarrow> request \<Rightarrow> fetch_outcome"

section \<open>The client\<close>

record client =
  apiKey :: string
  host :: string
  organizationName :: jsval
  projectName :: jsval
  organizationId :: jsval
  projectId :: jsval
  headers :: "(string \<times> string) list"
  timeout :: nat

record client_options =
  opt_apiKey :: string
  opt_host :: "string option"
  opt_organizationName :: "string option"
  opt_projectName :: "string option"
  opt_organizationId :: "string option"
  opt_projectId :: "string option"

text \<open>\<^verbatim>\<open>options.field ?? null\<close> on an optional string.\<close>

definition or_null :: "string option \<Rightarrow> jsval" where
  "or_null x = (case x of None \<Rightarrow> JNull | Some s \<Rightarrow> JStr s)"

text \<open>
  \<^verbatim>\<open>s.trim() === ""\<close>: the string is made of white space and line terminators only.
  On the bytes of the string these are tab, line feed, vertical tab, form feed, carriage
  return and space, U+00A0 (two bytes), and U+1680, U+2000 to U+200A, U+2028, U+2029,
  U+202F, U+205F, U+3000 and U+FEFF (three bytes each). \<open>ws_length\<close> is the length of
  the white space character a byte string starts with, 0 when it starts with none.
\<close>

definition ws_length :: "nat list \<Rightarrow> nat" where
  "ws_length bs =
     (if take 1 bs \<in> set [[9], [10], [11], [12], [13], [32]] then 1
      else if take 2 bs = [194, 160] then 2
      else if take 3 bs \<in> set [[225, 154, 128], [226, 128, 168], [226, 128, 169], [226, 128, 175],
                                [226, 129, 159], [227, 128, 128], [239, 187, 191]]
              \<or> (take 2 bs = [226, 128] \<and> take 1 (drop 2 bs) \<in> set (map (\<lambda>b. [b]) [128 ..< 139]))
      then 3 else 0)"

function all_white :: "nat list \<Rightarrow> bool" where
  "all_white bs = (if bs = [] then True
                   else if ws_length bs = 0 then False
                   else all_white (drop (ws_length bs) bs))"
  by pat_completeness auto
termination
  by (relation "measure length") auto

declare all_white.simps [simp del]

definition trim_empty :: "string \<Rightarrow> bool" where
  "trim_empty s = all_white (map of_char s)"

text \<open>
  The constructor. The pairing check of the organization and project fields only logs a
  warning and is left out.
\<close>

definition MemoryClient :: "client_options \<Rightarrow> js_error + client" where
  "MemoryClient options =
     (if opt_apiKey options = [] then Inl (Error ''Mem0 API key is required'')
      else if trim_empty (opt_apiKey options) then Inl (Error ''Mem0 API key cannot be empty'')
      else Inr \<lparr> apiKey = opt_apiKey options,
                 host = (case opt_host options of None \<Rightarrow> ''https://api.mem0.ai'' | Some h \<Rightarrow> h),
                 organizationName = or_null (opt_organizationName options),
                 projectName = or_null (opt_projectName options),
                 organizationId = or_null (opt_organizationId options),
                 projectId = or_null (opt_projectId options),
                 headers = [(''Authorization'', ''Token '' @ opt_apiKey options),
                            (''Content-Type'', ''application/json'')],
                 timeout = 60000 \<rparr>)"

text \<open>
  Every method runs on the client and the trace and returns its result, or the error it
  threw, with the client and the trace as it left them.
\<close>

type_synonym state = "client \<times> trace"
type_synonym 'a outcome = "(js_error + 'a) \<times> state"

subsection \<open>The request primitive\<close>

text \<open>
  \<^verbatim>\<open>#fetchWithErrorHandling\<close>. No method passes headers of its own, so the headers of a
  request are the client's. A rejection named \<^verbatim>\<open>AbortError\<close> becomes the timeout
  error, any other rejection is rethrown. A response that is not ok becomes the API error
  of its status with the body text, or the status line when the body text is empty.
\<close>

definition fetchWithErrorHandling ::
  "net \<Rightarrow> string \<Rightarrow> http_method \<Rightarrow> jsval option \<Rightarrow> state \<Rightarrow> jsval outcome" where
  "fetchWithErrorHandling nt url m body st =
     (let c = fst st; tr = snd st;
          rq = \<lparr> req_url = url, req_method = m, req_headers = headers c, req_body = body \<rparr>;
          out = nt tr rq;
          st' = (c, tr @ [(rq, out)])
      in case out of
           Rejected name msg \<Rightarrow>
             (if name = ''AbortError''
              then (Inl (Error (''Request timeout after '' @ show_nat (timeout c) @ ''ms for '' @ url)), st')
              else (Inl (Rejection name msg), st'))
         | Responded r \<Rightarrow>
             (if \<not> resp_ok r
              then (Inl (new_APIError (status r)
                          (if body_text r \<noteq> [] then body_text r else statusText r)), st')
              else (case body_json r of
                      None \<Rightarrow> (Inl SyntaxError, st')
                    | Some v \<Rightarrow> (Inr v, st'))))"

subsection \<open>Preparing options\<close>

text \<open>\<^verbatim>\<open>#preparePayload\<close>: \<^verbatim>\<open>{ messages, ...options }\<close>.\<close>

definition preparePayload :: "jsval \<Rightarrow> jsobj \<Rightarrow> jsobj" where
  "preparePayload messages options = obj_spread [(''messages'', messages)] options"

text \<open>\<^verbatim>\<open>#prepareParams\<close>: every entry that is neither null nor undefined, as a string.\<close>

definition prepareParams :: "jsobj \<Rightarrow> (string \<times> string) list" where
  "prepareParams options =
     fold (\<lambda>(key, v) params.
             if v \<noteq> JNull \<and> v \<noteq> JUndefined then obj_set key (js_String v) params
             else params)
          options []"

text \<open>
  \<^verbatim>\<open>#addOrgProjectToOptions\<close>: on a copy of the options, the name pair is set when both
  names are configured; then, when both ids are configured, the id pair is set and the
  name pair is deleted.
\<close>

definition addOrgProjectToOptions :: "client \<Rightarrow> jsobj \<Rightarrow> jsobj" where
  "addOrgProjectToOptions c options =
     (let result = obj_spread [] options;
          result1 =
            (if organizationName c \<noteq> JNull \<and> projectName c \<noteq> JNull
             then obj_set ''project_name'' (projectName c)
                    (obj_set ''org_name'' (organizationName c) result)
             else result)
      in if organizationId c \<noteq> JNull \<and> projectId c \<noteq> JNull
         then AList.delete ''project_name''
                (AList.delete ''org_name''
                  (obj_set ''project_id'' (projectId c)
                    (obj_set ''org_id'' (organizationId c) result1)))
         else result1)"

subsection \<open>The methods\<close>

text \<open>
  \<^verbatim>\<open>ping\<close>. A parsed body that is falsy or not an object is the API error 500; a
  \<^verbatim>\<open>status\<close> other than the string \<^verbatim>\<open>ok\<close> is the API error 401 with the body's
  \<^verbatim>\<open>message\<close> (or a default); otherwise the ids of the response are stored where the
  client has none.
\<close>

definition ping :: "net \<Rightarrow> state \<Rightarrow> jsval outcome" where
  "ping nt st =
     (case fetchWithErrorHandling nt (host (fst st) @ ''/v1/ping/'') GET None st of
        (Inl e, st') \<Rightarrow> (Inl e, st')
      | (Inr response, (c, tr)) \<Rightarrow>
          if \<not> truthy response \<or> \<not> typeof_object response
          then (Inl (new_APIError 500 ''Invalid response format from ping endpoint''), (c, tr))
          else if js_prop response ''status'' \<noteq> JStr ''ok''
          then (Inl (new_APIError 401
                      (js_String (nullish (js_prop response ''message'')
                                          (JStr ''API Key is invalid'')))), (c, tr))
          else
            let c1 = (if truthy (js_prop response ''org_id'') \<and> \<not> truthy (organizationId c)
                      then c\<lparr>organizationId := js_prop response ''org_id''\<rparr> else c);
                c2 = (if truthy (js_prop response ''project_id'') \<and> \<not> truthy (projectId c1)
                      then c1\<lparr>projectId := js_prop response ''project_id''\<rparr> else c1)
            in (Inr JUndefined, (c2, tr)))"

definition add :: "net \<Rightarrow> jsval \<Rightarrow> jsobj \<Rightarrow> state \<Rightarrow> jsval outcome" where
  "add nt messages options st =
     (let opts = addOrgProjectToOptions (fst st) options;
          opts1 = (if truthy (obj_get opts ''api_version'')
                   then obj_set ''version'' (JStr (js_String (obj_get opts ''api_version''))) opts
                   else opts);
          payload = preparePayload messages opts1
      in fetchWithErrorHandling nt (host (fst st) @ ''/v1/memories/'') POST (Some (JObj payload)) st)"

definition update :: "net \<Rightarrow> string \<Rightarrow> jsobj \<Rightarrow> state \<Rightarrow> jsval outcome" where
  "update nt memoryId data st =
     (if obj_get data ''text'' = JUndefined \<and> obj_get data ''metadata'' = JUndefined
      then (Inl (Error ''Either text or metadata must be provided for update.''), st)
      else fetchWithErrorHandling nt (host (fst st) @ ''/v1/memories/'' @ memoryId @ ''/'')
             PUT (Some (JObj data)) st)"

definition get :: "net \<Rightarrow> string \<Rightarrow> state \<Rightarrow> jsval outcome" where
  "get nt memoryId st =
     fetchWithErrorHandling nt (host (fst st) @ ''/v1/memories/'' @ memoryId @ ''/'') GET None st"

text \<open>
  \<^verbatim>\<open>getAll\<close>. \<^verbatim>\<open>api_version\<close>, \<^verbatim>\<open>page\<close> and \<^verbatim>\<open>page_size\<close> are taken out of the
  options; the pagination fragment is built when \<^verbatim>\<open>page && page_size\<close> holds.
\<close>

definition getAll :: "net \<Rightarrow> jsobj \<Rightarrow> state \<Rightarrow> jsval outcome" where
  "getAll nt options st =
     (let api_version = obj_get options ''api_version'';
          page = obj_get options ''page'';
          page_size = obj_get options ''page_size'';
          otherOptions = obj_rest [''api_version'', ''page'', ''page_size''] options;
          opts = addOrgProjectToOptions (fst st) otherOptions;
          paginationParams =
            (if truthy page \<and> truthy page_size
             then ''page='' @ js_String page @ ''&page_size='' @ js_String page_size
             else [])
      in if api_version = JStr ''v2''
         then fetchWithErrorHandling nt
                (if paginationParams \<noteq> []
                 then host (fst st) @ ''/v2/memories/?'' @ paginationParams
                 else host (fst st) @ ''/v2/memories/'')
                POST (Some (JObj opts)) st
         else
           let params = URLSearchParams_toString (prepareParams opts)
           in fetchWithErrorHandling nt
                (if paginationParams \<noteq> []
                 then host (fst st) @ ''/v1/memories/?'' @ params @ ''&'' @ paginationParams
                 else host (fst st) @ ''/v1/memories/?'' @ params)
                GET None st)"

definition search :: "net \<Rightarrow> string \<Rightarrow> jsobj \<Rightarrow> state \<Rightarrow> jsval outcome" where
  "search nt query options st =
     (let api_version = obj_get options ''api_version'';
          otherOptions = obj_rest [''api_version''] options;
          opts = addOrgProjectToOptions (fst st) otherOptions;
          payload = obj_spread [(''query'', JStr query)] opts;
          endpoint = (if api_version = JStr ''v2'' then ''/v2/memories/search/''
                      else ''/v1/memories/search/'')
      in fetchWithErrorHandling nt (host (fst st) @ endpoint) POST (Some (JObj payload)) st)"

definition delete_memory :: "net \<Rightarrow> string \<Rightarrow> state \<Rightarrow> jsval outcome" where
  "delete_memory nt memoryId st =
     fetchWithErrorHandling nt (host (fst st) @ ''/v1/memories/'' @ memoryId @ ''/'') DELETE None st"

definition deleteAll :: "net \<Rightarrow> jsobj \<Rightarrow> state \<Rightarrow> jsval outcome" where
  "deleteAll nt options st =
     (let opts = addOrgProjectToOptions (fst st) options;
          params = URLSearchParams_toString (prepareParams opts)
      in fetchWithErrorHandling nt (host (fst st) @ ''/v1/memories/?'' @ params) DELETE None st)"

definition history :: "net \<Rightarrow> string \<Rightarrow> state \<Rightarrow> jsval outcome" where
  "history nt memoryId st =
     fetchWithErrorHandling nt (host (fst st) @ ''/v1/memories/'' @ memoryId @ ''/history/'')
       GET None st"

definition users :: "net \<Rightarrow> state \<Rightarrow> jsval outcome" where
  "users nt st =
     (let opts = addOrgProjectToOptions (fst st) [];
          params = URLSearchParams_toString (prepareParams opts)
      in fetchWithErrorHandling nt (host (fst st) @ ''/v1/entities/?'' @ params) GET None st)"

definition deleteUser :: "net \<Rightarrow> jsobj \<Rightarrow> state \<Rightarrow> jsval outcome" where
  "deleteUser nt data st =
     (let entityType = nullish (obj_get data ''entity_type'') (JStr ''user'')
      in fetchWithErrorHandling nt
           (host (fst st) @ ''/v1/entities/'' @ js_String entityType @ ''/''
              @ js_String (obj_get data ''entity_id'') @ ''/'')
           DELETE None st)"

text \<open>
  \<^verbatim>\<open>entities.results.map((entity) => ({ type: entity.type, name: entity.name }))\<close> on
  the parsed listing: a \<^verbatim>\<open>TypeError\<close> when the listing is null, when \<^verbatim>\<open>results\<close> is
  not an array, or when an element is null.
\<close>

definition entity_targets :: "jsval \<Rightarrow> js_error + (jsval \<times> jsval) list" where
  "entity_targets entities =
     (if entities = JNull \<or> entities = JUndefined then Inl TypeError
      else case js_prop entities ''results'' of
             JArr rs \<Rightarrow>
               (if list_ex (\<lambda>e. e = JNull \<or> e = JUndefined) rs then Inl TypeError
                else Inr (map (\<lambda>e. (js_prop e ''type'', js_prop e ''name'')) rs))
           | _ \<Rightarrow> Inl TypeError)"

text \<open>
  The loop of \<^verbatim>\<open>deleteUsers\<close>: one awaited DELETE request per entity, in order; the
  first error leaves the loop.
\<close>

fun deleteUsers_loop :: "net \<Rightarrow> string \<Rightarrow> (jsval \<times> jsval) list \<Rightarrow> state \<Rightarrow> unit outcome" where
  "deleteUsers_loop nt queryParams [] st = (Inr (), st)"
| "deleteUsers_loop nt queryParams (entity # rest) st =
     (case fetchWithErrorHandling nt
             (host (fst st) @ ''/v2/entities/'' @ js_String (fst entity) @ ''/''
                @ js_String (snd entity) @ ''/?'' @ queryParams)
             DELETE None st of
        (Inl e, st') \<Rightarrow> (Inl e, st')
      | (Inr v, st') \<Rightarrow> deleteUsers_loop nt queryParams rest st')"

definition deleteUsers :: "net \<Rightarrow> jsobj \<Rightarrow> state \<Rightarrow> jsval outcome" where
  "deleteUsers nt params st =
     (let user_id = obj_get params ''user_id'';
          agent_id = obj_get params ''agent_id'';
          app_id = obj_get params ''app_id'';
          run_id = obj_get params ''run_id''
      in case (if truthy user_id then (Inr [(JStr ''user'', user_id)], st)
               else if truthy agent_id then (Inr [(JStr ''agent'', agent_id)], st)
               else if truthy app_id then (Inr [(JStr ''app'', app_id)], st)
               else if truthy run_id then (Inr [(JStr ''run'', run_id)], st)
               else (case users nt st of
                       (Inl e, st') \<Rightarrow> (Inl e, st')
                     | (Inr entities, st') \<Rightarrow> (entity_targets entities, st'))) of
           (Inl e, st1) \<Rightarrow> (Inl e, st1)
         | (Inr toDelete, st1) \<Rightarrow>
             if length toDelete = 0 then (Inl (Error ''No entities to delete''), st1)
             else
               let requestOpts = addOrgProjectToOptions (fst st1) [];
                   queryParams = URLSearchParams_toString (prepareParams requestOpts)
               in (case deleteUsers_loop nt queryParams toDelete st1 of
                     (Inl e, st2) \<Rightarrow> (Inl e, st2)
                   | (Inr u, st2) \<Rightarrow>
                       (Inr (JObj [(''message'',
                               JStr (if truthy (js_or (js_or (js_or user_id agent_id) app_id) run_id)
                                     then ''Entity deleted successfully.''
                                     else ''All users, agents, apps and runs deleted.''))]), st2)))"

definition batchUpdate :: "net \<Rightarrow> jsobj list \<Rightarrow> state \<Rightarrow> jsval outcome" where
  "batchUpdate nt memories st =
     (let memoriesBody =
            map (\<lambda>memory. JObj [(''memory_id'', obj_get memory ''memoryId''),
                                 (''text'', obj_get memory ''text'')]) memories
      in fetchWithErrorHandling nt (host (fst st) @ ''/v1/batch/'')
           PUT (Some (JObj [(''memories'', JArr memoriesBody)])) st)"

definition batchDelete :: "net \<Rightarrow> string list \<Rightarrow> state \<Rightarrow> jsval outcome" where
  "batchDelete nt memoryIds st =
     (let memoriesBody = map (\<lambda>id. JObj [(''memory_id'', JStr id)]) memoryIds
      in fetchWithErrorHandling nt (host (fst st) @ ''/v1/batch/'')
           DELETE (Some (JObj [(''memories'', JArr memoriesBody)])) st)"

text \<open>
  \<^verbatim>\<open>options.fields?.forEach((field) => params.append("fields", field))\<close>: nothing when
  \<^verbatim>\<open>fields\<close> is null or undefined, a \<^verbatim>\<open>TypeError\<close> when it is not an array.
\<close>

definition project_fields :: "jsobj \<Rightarrow> js_error + (string \<times> string) list" where
  "project_fields options =
     (case obj_get options ''fields'' of
        JUndefined \<Rightarrow> Inr []
      | JNull \<Rightarrow> Inr []
      | JArr fs \<Rightarrow> Inr (map (\<lambda>field. (''fields'', js_String field)) fs)
      | _ \<Rightarrow> Inl TypeError)"

definition getProject :: "net \<Rightarrow> jsobj \<Rightarrow> state \<Rightarrow> jsval outcome" where
  "getProject nt options st =
     (if \<not> (truthy (organizationId (fst st)) \<and> truthy (projectId (fst st)))
      then (Inl (Error ''organizationId and projectId must be set to access project settings''), st)
      else case project_fields options of
             Inl e \<Rightarrow> (Inl e, st)
           | Inr params \<Rightarrow>
               fetchWithErrorHandling nt
                 (host (fst st) @ ''/api/v1/orgs/organizations/'' @ js_String (organizationId (fst st))
                    @ ''/projects/'' @ js_String (projectId (fst st)) @ ''/?''
                    @ URLSearchParams_toString params)
                 GET None st)"

definition updateProject :: "net \<Rightarrow> jsobj \<Rightarrow> state \<Rightarrow> jsval outcome" where
  "updateProject nt prompts st =
     (if \<not> (truthy (organizationId (fst st)) \<and> truthy (projectId (fst st)))
      then (Inl (Error ''organizationId and projectId must be set to update project settings''), st)
      else fetchWithErrorHandling nt
             (host (fst st) @ ''/api/v1/orgs/organizations/'' @ js_String (organizationId (fst st))
                @ ''/projects/'' @ js_String (projectId (fst st)) @ ''/'')
             PATCH (Some (JObj prompts)) st)"

definition getWebhooks :: "net \<Rightarrow> jsobj option \<Rightarrow> state \<Rightarrow> jsval outcome" where
  "getWebhooks nt data st =
     (let projectId' =
            nullish (case data of None \<Rightarrow> JUndefined | Some d \<Rightarrow> obj_get d ''projectId'')
                    (projectId (fst st))
      in fetchWithErrorHandling nt
           (host (fst st) @ ''/api/v1/webhooks/projects/'' @ js_String projectId' @ ''/'')
           GET None st)"

definition createWebhook :: "net \<Rightarrow> jsobj \<Rightarrow> state \<Rightarrow> jsval outcome" where
  "createWebhook nt webhook st =
     fetchWithErrorHandling nt
       (host (fst st) @ ''/api/v1/webhooks/projects/'' @ js_String (projectId (fst st)) @ ''/'')
       POST (Some (JObj webhook)) st"

definition updateWebhook :: "net \<Rightarrow> jsobj \<Rightarrow> state \<Rightarrow> jsval outcome" where
  "updateWebhook nt webhook st =
     (let projectId' = js_or (obj_get webhook ''projectId'') (projectId (fst st))
      in fetchWithErrorHandling nt
           (host (fst st) @ ''/api/v1/webhooks/'' @ js_String (obj_get webhook ''webhookId'') @ ''/'')
           PUT (Some (JObj (obj_set ''projectId'' projectId' (obj_spread [] webhook)))) st)"

definition deleteWebhook :: "net \<Rightarrow> jsobj \<Rightarrow> state \<Rightarrow> jsval outcome" where
  "deleteWebhook nt data st =
     fetchWithErrorHandling nt
       (host (fst st) @ ''/api/v1/webhooks/'' @ js_String (obj_get data ''webhookId'') @ ''/'')
       DELETE None st"

definition feedback :: "net \<Rightarrow> jsobj \<Rightarrow> state \<Rightarrow> jsval outcome" where
  "feedback nt data st =
     fetchWithErrorHandling nt (host (fst st) @ ''/v1/feedback/'') POST (Some (JObj data)) st"

text \<open>\<^verbatim>\<open>v?.toString() ?? d\<close>.\<close>

definition toString_or :: "jsval \<Rightarrow> jsval \<Rightarrow> jsval" where
  "toString_or v d = (if v = JNull \<or> v = JUndefined then d else JStr (js_String v))"

definition createMemoryExport :: "net \<Rightarrow> jsobj \<Rightarrow> state \<Rightarrow> jsval outcome" where
  "createMemoryExport nt data st =
     (if \<not> truthy (obj_get data ''filters'') \<or> \<not> truthy (obj_get data ''schema'')
      then (Inl (Error ''Missing filters or schema''), st)
      else
        let payload =
              obj_set ''project_id'' (toString_or (projectId (fst st)) JNull)
                (obj_set ''org_id'' (toString_or (organizationId (fst st)) JNull)
                  (obj_spread [] data))
        in fetchWithErrorHandling nt (host (fst st) @ ''/v1/exports/'') POST (Some (JObj payload)) st)"

definition getMemoryExport :: "net \<Rightarrow> jsobj \<Rightarrow> state \<Rightarrow> jsval outcome" where
  "getMemoryExport nt data st =
     (if \<not> truthy (obj_get data ''memory_export_id'') \<and> \<not> truthy (obj_get data ''filters'')
      then (Inl (Error ''Missing memory_export_id or filters''), st)
      else
        let payload =
              obj_set ''project_id'' (toString_or (projectId (fst st)) (JStr []))
                (obj_set ''org_id'' (toString_or (organizationId (fst st)) (JStr []))
                  (obj_spread [] data))
        in fetchWithErrorHandling nt (host (fst st) @ ''/v1/exports/get/'')
             POST (Some (JObj payload)) st)"

subsection \<open>The public surface\<close>

text \<open>A call of a public method with its arguments, and what running it does.\<close>

datatype call =
    Ping
  | Add jsval jsobj
  | Update string jsobj
  | Get string
  | GetAll jsobj
  | Search string jsobj
  | Delete string
  | DeleteAll jsobj
  | History string
  | Users
  | DeleteUser jsobj
  | DeleteUsers jsobj
  | BatchUpdate "jsobj list"
  | BatchDelete "string list"
  | GetProject jsobj
  | UpdateProject jsobj
  | GetWebhooks "jsobj option"
  | CreateWebhook jsobj
  | UpdateWebhook jsobj
  | DeleteWebhook jsobj
  | Feedback jsobj
  | CreateMemoryExport jsobj
  | GetMemoryExport jsobj

fun run :: "net \<Rightarrow> call \<Rightarrow> state \<Rightarrow> jsval outcome" where
  "run nt Ping st = ping nt st"
| "run nt (Add messages options) st = add nt messages options st"
| "run nt (Update memoryId data) st = update nt memoryId data st"
| "run nt (Get memoryId) st = get nt memoryId st"
| "run nt (GetAll options) st = getAll nt options st"
| "run nt (Search query options) st = search nt query options st"
| "run nt (Delete memoryId) st = delete_memory nt memoryId st"
| "run nt (DeleteAll options) st = deleteAll nt options st"
| "run nt (History memoryId) st = history nt memoryId st"
| "run nt Users st = users nt st"
| "run nt (DeleteUser data) st = deleteUser nt data st"
| "run nt (DeleteUsers params) st = deleteUsers nt params st"
| "run nt (BatchUpdate memories) st = batchUpdate nt memories st"
| "run nt (BatchDelete memoryIds) st = batchDelete nt memoryIds st"
| "run nt (GetProject options) st = getProject nt options st"
| "run nt (UpdateProject prompts) st = updateProject nt prompts st"
| "run nt (GetWebhooks data) st = getWebhooks nt data st"
| "run nt (CreateWebhook webhook) st = createWebhook nt webhook st"
| "run nt (UpdateWebhook webhook) st = updateWebhook nt webhook st"
| "run nt (DeleteWebhook data) st = deleteWebhook nt data st"
| "run nt (Feedback data) st = feedback nt data st"
| "run nt (CreateMemoryExport data) st = createMemoryExport nt data st"
| "run nt (GetMemoryExport data) st = getMemoryExport nt data st"

section \<open>Auxiliary notions for the statements and proofs\<close>

text \<open>
  The text an API error carries for a response, and the property that a call reports
  every response that is not ok among the exchanges it added to the trace.
\<close>

definition api_text :: "response \<Rightarrow> string" where
  "api_text r = (if body_text r \<noteq> [] then body_text r else statusText r)"

definition api_reported :: "trace \<Rightarrow> (js_error + 'a) \<times> state \<Rightarrow> bool" where
  "api_reported tr out =
     (\<exists>new. snd (snd out) = tr @ new \<and>
        (\<forall>rq r. (rq, Responded r) \<in> set new \<longrightarrow> \<not> resp_ok r \<longrightarrow>
           fst out = Inl (new_APIError (status r) (api_text r))))"

text \<open>
  The query string of the configured scope, the URL of the DELETE request for an entity,
  and the methods and URLs of a trace's requests, in order.
\<close>

definition scope_query :: "client \<Rightarrow> string" where
  "scope_query c = URLSearchParams_toString (prepareParams (addOrgProjectToOptions c []))"

definition entity_url :: "client \<Rightarrow> jsval \<times> jsval \<Rightarrow> string" where
  "entity_url c entity =
     host c @ ''/v2/entities/'' @ js_String (fst entity) @ ''/'' @ js_String (snd entity)
       @ ''/?'' @ scope_query c"

definition requests :: "trace \<Rightarrow> (http_method \<times> string) list" where
  "requests tr = map (\<lambda>x. (req_method (fst x), req_url (fst x))) tr"

text \<open>
  The request of the listing and the DELETE request for an entity of its results, as the
  client issues them; a reply on which \<^verbatim>\<open>#fetchWithErrorHandling\<close> returns (a response
  with a status from 200 to 299 and a JSON body); the trace after sending requests one
  after another, each after the reply to the one before; and the service's reply to the
  \<open>i\<close>-th of them (counting from 0).
\<close>

definition listing_request :: "client \<Rightarrow> request" where
  "listing_request c =
     \<lparr> req_url = host c @ ''/v1/entities/?'' @ scope_query c, req_method = GET,
       req_headers = headers c, req_body = None \<rparr>"

definition delete_request :: "client \<Rightarrow> jsval \<Rightarrow> request" where
  "delete_request c e =
     \<lparr> req_url = entity_url c (js_prop e ''type'', js_prop e ''name''), req_method = DELETE,
       req_headers = headers c, req_body = None \<rparr>"

definition succeeds :: "fetch_outcome \<Rightarrow> bool" where
  "succeeds out = (case out of Rejected name msg \<Rightarrow> False
                   | Responded r \<Rightarrow> resp_ok r \<and> body_json r \<noteq> None)"

fun sequentially :: "net \<Rightarrow> trace \<Rightarrow> request list \<Rightarrow> trace" where
  "sequentially nt tr [] = tr"
| "sequentially nt tr (rq # rqs) = sequentially nt (tr @ [(rq, nt tr rq)]) rqs"

definition reply_at :: "net \<Rightarrow> trace \<Rightarrow> request list \<Rightarrow> nat \<Rightarrow> fetch_outcome" where
  "reply_at nt tr rqs i = nt (sequentially nt tr (take i rqs)) (rqs ! i)"

subsection \<open>Sample clients and services\<close>

text \<open>
  The client of the unit tests (\<^verbatim>\<open>new MemoryClient({ apiKey: "test-key" })\<close>), a
  service that answers every request alike, a 200 response with a JSON body, and the
  responses and services the examples below use.
\<close>

definition test_client :: client where
  "test_client =
     \<lparr> apiKey = ''test-key'', host = ''https://api.mem0.ai'',
       organizationName = JNull, projectName = JNull,
       organizationId = JNull, projectId = JNull,
       headers = [(''Authorization'', ''Token test-key''),
                  (''Content-Type'', ''application/json'')],
       timeout = 60000 \<rparr>"

definition always :: "fetch_outcome \<Rightarrow> net" where
  "always out = (\<lambda>tr rq. out)"

definition json_ok :: "string \<Rightarrow> jsval \<Rightarrow> fetch_outcome" where
  "json_ok txt v = Responded \<lparr>status = 200, statusText = ''OK'', body_text = txt, body_json = Some v\<rparr>"

definition sample_listing :: fetch_outcome where
  \<open>sample_listing =
     json_ok ''{"results":[{"type":"user","name":"alice"},{"type":"agent","name":"bot"},{"type":"app","name":"shop"}]}''
       (JObj [(''results'', JArr [JObj [(''type'', JStr ''user''), (''name'', JStr ''alice'')],
                                  JObj [(''type'', JStr ''agent''), (''name'', JStr ''bot'')],
                                  JObj [(''type'', JStr ''app''), (''name'', JStr ''shop'')]])])\<close>

definition failing_second_delete :: net where
  "failing_second_delete tr rq =
     (if length tr = 0 then sample_listing
      else if length tr = 2
      then Responded \<lparr>status = 500, statusText = ''Internal Server Error'',
                      body_text = ''boom'', body_json = None\<rparr>
      else json_ok ''{}'' (JObj []))"

definition deleting_all :: net where
  "deleting_all tr rq = (if length tr = 0 then sample_listing else json_ok ''{}'' (JObj []))"

definition empty_listing :: fetch_outcome where
  \<open>empty_listing =
     json_ok ''{"count":0,"results":[],"next":null,"previous":null}''
       (JObj [(''count'', JNum (int_num 0)), (''results'', JArr []), (''next'', JNull), (''previous'', JNull)])\<close>

definition ping_learns :: fetch_outcome where
  \<open>ping_learns =
     json_ok ''{"status":"ok","org_id":"org_1","project_id":"proj_1"}''
       (JObj [(''status'', JStr ''ok''), (''org_id'', JStr ''org_1''),
              (''project_id'', JStr ''proj_1'')])\<close>

definition ping_invalid_key :: fetch_outcome where
  \<open>ping_invalid_key =
     json_ok ''{"status":"error","message":"Invalid API key"}''
       (JObj [(''status'', JStr ''error''), (''message'', JStr ''Invalid API key'')])\<close>

section \<open>Evaluating the model\<close>

lemma test_client_constructed:
  "MemoryClient \<lparr> opt_apiKey = ''test-key'', opt_host = None, opt_organizationName = None,
                   opt_projectName = None, opt_organizationId = None, opt_projectId = None \<rparr>
     = Inr test_client"
  by (simp add: MemoryClient_def trim_empty_def all_white.simps ws_length_def or_null_def
        test_client_def)

lemma replicate_num: "replicate (numeral k) x = x # replicate (pred_numeral k) x"
  by (simp add: numeral_eq_Suc)

lemmas num_defs = int_num_def dec_String_def strip_zeros.simps show_nat.simps digit_char_def
  replicate_num

lemmas model_defs = getAll_def search_def users_def Let_def fetchWithErrorHandling_def
  obj_get_def obj_rest_def addOrgProjectToOptions_def obj_spread_def obj_set_def
  array_index_def digit_val_def prepareParams_def
  URLSearchParams_toString_def urlencode_def urlencode_byte_def resp_ok_def new_APIError_def
  num_defs

lemma show_nat_401: "show_nat 401 = ''401''"
  by (simp add: show_nat.simps digit_char_def)

lemma show_nat_500: "show_nat 500 = ''500''"
  by (simp add: show_nat.simps digit_char_def)

section \<open>Objects and option bags\<close>

lemma keys_insert_index: "fst ` set (insert_index n kv ob) = insert (fst kv) (fst ` set ob)"
  by (induction ob) (auto split: option.splits)

lemma keys_obj_set: "fst ` set (obj_set k v ob) = insert k (fst ` set ob)"
  using dom_update[of k v ob]
  by (auto simp: obj_set_def keys_insert_index dom_map_of_conv_image_fst split: option.splits)

lemma map_of_insert_index:
  "fst kv \<notin> fst ` set ob \<Longrightarrow> map_of (insert_index n kv ob) = (map_of ob)(fst kv \<mapsto> snd kv)"
proof (induction ob)
  case Nil
  then show ?case by (cases kv) simp
next
  case (Cons p ps)
  then show ?case
    by (cases kv; cases p) (auto simp: fun_upd_twist split: option.splits)
qed

lemma map_of_obj_set: "map_of (obj_set k v ob) = (map_of ob)(k \<mapsto> v)"
proof (cases "k \<in> fst ` set ob")
  case True
  then show ?thesis by (simp add: obj_set_def update_conv')
next
  case False
  then have "map_of ob k = None" by (simp add: map_of_eq_None_iff)
  then have "map_of (ob @ [(k, v)]) = (map_of ob)(k \<mapsto> v)"
    by (auto simp: map_add_def fun_eq_iff split: option.splits)
  then show ?thesis using False map_of_insert_index[of "(k, v)" ob]
    by (simp add: obj_set_def split: option.splits)
qed

lemma keys_obj_spread: "fst ` set (obj_spread a b) = fst ` set a \<union> fst ` set b"
proof (induction b arbitrary: a)
  case Nil
  show ?case by (simp add: obj_spread_def)
next
  case (Cons x b)
  have "obj_spread a (x # b) = obj_spread (obj_set (fst x) (snd x) a) b"
    by (simp add: obj_spread_def case_prod_beta)
  then show ?case using Cons.IH[of "obj_set (fst x) (snd x) a"] by (auto simp: keys_obj_set)
qed

lemma keys_delete: "fst ` set (AList.delete k al) = fst ` set al - {k}"
  by (induction al) auto

lemma obj_get_obj_set: "obj_get (obj_set k v al) k' = (if k' = k then v else obj_get al k')"
  by (simp add: obj_get_def map_of_obj_set)

lemma obj_get_delete: "k' \<noteq> k \<Longrightarrow> obj_get (AList.delete k al) k' = obj_get al k'"
  by (simp add: obj_get_def delete_conv')

section \<open>The request primitive\<close>

lemma fetch_trace:
  "snd (snd (fetchWithErrorHandling nt url m b st)) =
     snd st @ [(\<lparr>req_url = url, req_method = m, req_headers = headers (fst st), req_body = b\<rparr>,
                nt (snd st) \<lparr>req_url = url, req_method = m, req_headers = headers (fst st), req_body = b\<rparr>)]"
  by (simp add: fetchWithErrorHandling_def Let_def split: fetch_outcome.split option.split)

lemma fetch_client: "fst (snd (fetchWithErrorHandling nt url m b st)) = fst st"
  by (simp add: fetchWithErrorHandling_def Let_def split: fetch_outcome.split option.split)

lemma fetch_not_ok:
  "nt (snd st) \<lparr>req_url = url, req_method = m, req_headers = headers (fst st), req_body = b\<rparr> = Responded r
   \<Longrightarrow> \<not> resp_ok r
   \<Longrightarrow> fst (fetchWithErrorHandling nt url m b st) = Inl (new_APIError (status r) (api_text r))"
  by (simp add: fetchWithErrorHandling_def Let_def api_text_def)

lemma fetch_Inr:
  assumes "fetchWithErrorHandling nt url m b st = (Inr v, st')"
  shows "\<exists>rq r. st' = (fst st, snd st @ [(rq, Responded r)]) \<and> resp_ok r \<and> body_json r = Some v"
  using assms
  by (auto simp: fetchWithErrorHandling_def Let_def split: fetch_outcome.splits option.splits if_splits)

lemma api_reported_fetch: "api_reported (snd st) (fetchWithErrorHandling nt url m b st)"
  unfolding api_reported_def
  by (rule exI, rule conjI, rule fetch_trace) (auto intro: fetch_not_ok)

lemma api_reported_local: "api_reported (snd st) (res, st)"
  by (simp add: api_reported_def)

lemma api_reported_after_ok:
  assumes "fetchWithErrorHandling nt url m b st = (Inr v, st')" and "api_reported (snd st') out"
  shows "api_reported (snd st) out"
proof -
  from fetch_Inr[OF assms(1)] obtain rq r where
    st': "st' = (fst st, snd st @ [(rq, Responded r)])" and ok: "resp_ok r" by blast
  from assms(2) obtain new where
    n: "snd (snd out) = snd st' @ new"
    and rep: "\<forall>rq r. (rq, Responded r) \<in> set new \<longrightarrow> \<not> resp_ok r \<longrightarrow>
           fst out = Inl (new_APIError (status r) (api_text r))"
    unfolding api_reported_def by blast
  have "snd (snd out) = snd st @ ((rq, Responded r) # new)" using n st' by simp
  moreover have "\<forall>rq' r'. (rq', Responded r') \<in> set ((rq, Responded r) # new) \<longrightarrow> \<not> resp_ok r' \<longrightarrow>
           fst out = Inl (new_APIError (status r') (api_text r'))"
    using rep ok by auto
  ultimately show ?thesis unfolding api_reported_def by blast
qed

lemma api_reported_loop: "api_reported (snd st) (deleteUsers_loop nt q es st)"
proof (induction es arbitrary: st)
  case Nil
  show ?case by (simp add: api_reported_local)
next
  case (Cons e es)
  let ?f = "fetchWithErrorHandling nt
             (host (fst st) @ ''/v2/entities/'' @ js_String (fst e) @ ''/''
                @ js_String (snd e) @ ''/?'' @ q) DELETE None st"
  obtain res st' where Pair: "?f = (res, st')" by (cases ?f) auto
  show ?case
  proof -
    show ?thesis
    proof (cases res)
      case (Inl err)
      have "api_reported (snd st) ?f" by (rule api_reported_fetch)
      then show ?thesis using Pair Inl by (simp add: api_reported_def)
    next
      case (Inr v)
      have "api_reported (snd st') (deleteUsers_loop nt q es st')" by (rule Cons.IH)
      then have "api_reported (snd st) (deleteUsers_loop nt q es st')"
        using Pair Inr by (intro api_reported_after_ok[of nt _ DELETE None st v st']) simp_all
      then show ?thesis using Pair Inr by simp
    qed
  qed
qed

lemma loop_client: "fst (snd (deleteUsers_loop nt q es st)) = fst st"
proof (induction es arbitrary: st)
  case Nil show ?case by simp
next
  case (Cons e es)
  let ?f = "fetchWithErrorHandling nt
             (host (fst st) @ ''/v2/entities/'' @ js_String (fst e) @ ''/''
                @ js_String (snd e) @ ''/?'' @ q) DELETE None st"
  have c: "fst (snd ?f) = fst st" by (rule fetch_client)
  obtain res st' where Pair: "?f = (res, st')" by (cases ?f) auto
  then show ?case using c Cons.IH[of st'] by (cases res) auto
qed

lemma fetch_requests:
  "requests (snd (snd (fetchWithErrorHandling nt url m b st))) = requests (snd st) @ [(m, url)]"
  by (simp add: fetch_trace requests_def)


section \<open>Error status fidelity\<close>

lemma api_reported_map:
  assumes "api_reported tr (r, s)" and "\<And>e. r = Inl e \<Longrightarrow> r' = Inl e"
  shows "api_reported tr (r', s)"
  using assms unfolding api_reported_def by fastforce

lemma api_reported_ping: "api_reported (snd st) (ping nt st)"
proof -
  let ?f = "fetchWithErrorHandling nt (host (fst st) @ ''/v1/ping/'') GET None st"
  obtain res st' where f: "?f = (res, st')" by (cases ?f) auto
  show ?thesis
  proof (cases res)
    case (Inl e)
    have "api_reported (snd st) ?f" by (rule api_reported_fetch)
    then show ?thesis using f Inl by (simp add: ping_def api_reported_def)
  next
    case (Inr v)
    have "snd (snd (ping nt st)) = snd st'"
      using f Inr by (cases st') (simp add: ping_def Let_def)
    then have "api_reported (snd st') (ping nt st)"
      by (simp add: api_reported_def)
    then show ?thesis using f Inr by (intro api_reported_after_ok[of nt _ GET None st v st']) simp_all
  qed
qed

lemma api_reported_deleteUsers: "api_reported (snd st) (deleteUsers nt params st)"
proof -
  have single: "api_reported (snd st)
       (case deleteUsers_loop nt q [t] st of
          (Inl e, st2) \<Rightarrow> (Inl e, st2)
        | (Inr u, st2) \<Rightarrow> (Inr (JObj m), st2))" for q t m
  proof -
    obtain r s where l: "deleteUsers_loop nt q [t] st = (r, s)" by (cases "deleteUsers_loop nt q [t] st") auto
    have "api_reported (snd st) (r, s)" using api_reported_loop[of st nt q "[t]"] l by simp
    then have "api_reported (snd st) (case r of Inl e \<Rightarrow> Inl e | Inr u \<Rightarrow> Inr (JObj m), s)"
      by (rule api_reported_map) simp
    then show ?thesis using l by (cases r) simp_all
  qed
  show ?thesis
  proof (cases "truthy (obj_get params ''user_id'') \<or> truthy (obj_get params ''agent_id'')
                 \<or> truthy (obj_get params ''app_id'') \<or> truthy (obj_get params ''run_id'')")
    case True
    then show ?thesis
      unfolding deleteUsers_def Let_def using single
      by (auto simp del: deleteUsers_loop.simps)
  next
    case False
    obtain res st' where u: "users nt st = (res, st')" by (cases "users nt st") auto
    have ur: "api_reported (snd st) (users nt st)"
      by (simp add: users_def Let_def api_reported_fetch)
    show ?thesis
    proof (cases res)
      case (Inl e)
      then show ?thesis using False u ur by (simp add: deleteUsers_def Let_def api_reported_def)
    next
      case (Inr entities)
      have uf: "fetchWithErrorHandling nt (host (fst st) @ ''/v1/entities/?'' @
                  URLSearchParams_toString (prepareParams (addOrgProjectToOptions (fst st) [])))
                  GET None st = (Inr entities, st')"
        using u Inr by (simp add: users_def Let_def)
      have "api_reported (snd st') (deleteUsers nt params st)"
      proof (cases "entity_targets entities")
        case (Inl e)
        then show ?thesis using False u Inr by (simp add: deleteUsers_def Let_def api_reported_def)
      next
        case tg: (Inr toDelete)
        show ?thesis
        proof (cases "toDelete = []")
          case True
          then show ?thesis using False u Inr tg by (simp add: deleteUsers_def Let_def api_reported_def)
        next
          case ne: False
          let ?q = "URLSearchParams_toString (prepareParams (addOrgProjectToOptions (fst st') []))"
          obtain r s where l: "deleteUsers_loop nt ?q toDelete st' = (r, s)"
            by (cases "deleteUsers_loop nt ?q toDelete st'") auto
          have "api_reported (snd st') (r, s)" using api_reported_loop[of st' nt ?q toDelete] l by simp
          then have "api_reported (snd st')
              (case r of Inl e \<Rightarrow> Inl e
               | Inr u \<Rightarrow> Inr (JObj [(''message'', JStr ''All users, agents, apps and runs deleted.'')]), s)"
            by (rule api_reported_map) simp
          then show ?thesis using False u Inr tg ne l
            by (cases r) (simp_all add: deleteUsers_def Let_def js_or_def)
        qed
      qed
      then show ?thesis by (rule api_reported_after_ok[OF uf])
    qed
  qed
qed

lemma api_reported_run: "api_reported (snd st) (run nt cl st)"
proof (cases cl)
  case Ping
  then show ?thesis by (simp add: api_reported_ping)
next
  case (DeleteUsers params)
  then show ?thesis by (simp add: api_reported_deleteUsers)
next
  case (GetProject options)
  then show ?thesis
    by (simp add: getProject_def api_reported_fetch api_reported_local split: sum.split)
qed (simp_all add: add_def update_def get_def getAll_def search_def delete_memory_def
      deleteAll_def history_def users_def deleteUser_def batchUpdate_def batchDelete_def
      updateProject_def getWebhooks_def createWebhook_def updateWebhook_def
      deleteWebhook_def feedback_def createMemoryExport_def getMemoryExport_def Let_def
      api_reported_fetch api_reported_local)

text \<open>
  C1. Whatever the call, when a request it issued was answered with a status outside
  200..299, the call throws the API error of that status, and the message of the error
  contains the body text of the response, or its status line when the body text is
  empty.
\<close>

theorem api_error_status_fidelity:
  assumes "run nt cl st = (res, st')"
      and "(rq, Responded r) \<in> set (drop (length (snd st)) (snd st'))"
      and "\<not> resp_ok r"
  shows "\<exists>msg. res = Inl (APIError (status r) msg)
           \<and> msg = ''API request failed with status '' @ show_nat (status r) @ '': ''
                    @ (if body_text r \<noteq> [] then body_text r else statusText r)
           \<and> sublist (if body_text r \<noteq> [] then body_text r else statusText r) msg"
proof -
  from api_reported_run[of st nt cl] assms(1) obtain new where
    n: "snd st' = snd st @ new"
    and rep: "\<forall>rq r. (rq, Responded r) \<in> set new \<longrightarrow> \<not> resp_ok r \<longrightarrow>
           res = Inl (new_APIError (status r) (api_text r))"
    unfolding api_reported_def by auto
  have "(rq, Responded r) \<in> set new" using assms(2) n by simp
  with rep assms(3) have r: "res = Inl (new_APIError (status r) (api_text r))" by blast
  define T where "T = (if body_text r \<noteq> [] then body_text r else statusText r)"
  define P where "P = ''API request failed with status '' @ show_nat (status r) @ '': ''"
  have "res = Inl (APIError (status r) (P @ T))"
    using r by (simp add: new_APIError_def api_text_def T_def P_def)
  moreover have "sublist T (P @ T)"
    using sublist_appendI[of T P "[]"] by simp
  ultimately have "\<exists>msg. res = Inl (APIError (status r) msg) \<and> msg = P @ T \<and> sublist T msg"
    by blast
  then show ?thesis unfolding T_def P_def by simp
qed

theorem api_error_status_fidelity_witness:
  "(\<exists>msg. fst (run (always (Responded \<lparr>status = 404, statusText = ''Not Found'',
                        body_text = ''Memory not found'', body_json = None\<rparr>))
                  (Get ''non-existent'') (test_client, [])) = Inl (APIError 404 msg)
          \<and> sublist ''Memory not found'' msg)
   \<and> (\<exists>msg. fst (run (always (Responded \<lparr>status = 429, statusText = ''Too Many Requests'',
                        body_text = [], body_json = None\<rparr>))
                  (Search ''hobbies'' []) (test_client, [])) = Inl (APIError 429 msg)
          \<and> sublist ''Too Many Requests'' msg)"
proof -
  let ?r1 = "\<lparr>status = 404, statusText = ''Not Found'',
              body_text = ''Memory not found'', body_json = None\<rparr>"
  let ?r2 = "\<lparr>status = 429, statusText = ''Too Many Requests'',
              body_text = [], body_json = None\<rparr>"
  let ?o1 = "run (always (Responded ?r1)) (Get ''non-existent'') (test_client, [])"
  let ?o2 = "run (always (Responded ?r2)) (Search ''hobbies'' []) (test_client, [])"
  have a1: "?o1 = (fst ?o1, snd ?o1)" and a2: "?o2 = (fst ?o2, snd ?o2)" by simp_all
  have b1: "(\<lparr>req_url = ''https://api.mem0.ai/v1/memories/non-existent/'', req_method = GET,
               req_headers = headers test_client, req_body = None\<rparr>, Responded ?r1)
            \<in> set (drop (length (snd (test_client, []))) (snd (snd ?o1)))"
    by (simp add: get_def fetch_trace always_def test_client_def)
  have b2: "(\<lparr>req_url = ''https://api.mem0.ai/v1/memories/search/'', req_method = POST,
               req_headers = headers test_client,
               req_body = Some (JObj [(''query'', JStr ''hobbies'')])\<rparr>, Responded ?r2)
            \<in> set (drop (length (snd (test_client, []))) (snd (snd ?o2)))"
    by (simp add: search_def fetch_trace always_def test_client_def obj_get_def obj_rest_def
          addOrgProjectToOptions_def obj_spread_def)
  have c1: "\<not> resp_ok ?r1" and c2: "\<not> resp_ok ?r2" by (simp_all add: resp_ok_def)
  from api_error_status_fidelity[OF a1 b1 c1] api_error_status_fidelity[OF a2 b2 c2]
  show ?thesis by simp
qed

section \<open>Organization and project scope\<close>

text \<open>
  C2. When both ids are configured, the merged options of every options bag hold
  \<^verbatim>\<open>org_id\<close> and \<^verbatim>\<open>project_id\<close> with the configured values and hold neither
  \<^verbatim>\<open>org_name\<close> nor \<^verbatim>\<open>project_name\<close>, whether or not the name pair is configured
  too and whatever the bag held.
\<close>

theorem id_pair_wins:
  assumes "organizationId c \<noteq> JNull" and "projectId c \<noteq> JNull"
  shows "''org_id'' \<in> fst ` set (addOrgProjectToOptions c options)
       \<and> ''project_id'' \<in> fst ` set (addOrgProjectToOptions c options)
       \<and> obj_get (addOrgProjectToOptions c options) ''org_id'' = organizationId c
       \<and> obj_get (addOrgProjectToOptions c options) ''project_id'' = projectId c
       \<and> ''org_name'' \<notin> fst ` set (addOrgProjectToOptions c options)
       \<and> ''project_name'' \<notin> fst ` set (addOrgProjectToOptions c options)"
  using assms
  by (simp add: addOrgProjectToOptions_def Let_def keys_obj_set keys_delete
        obj_get_obj_set obj_get_delete)

theorem id_pair_wins_witness:
  "obj_get (addOrgProjectToOptions
      (test_client\<lparr>organizationName := JStr ''acme'', projectName := JStr ''demo'',
                    organizationId := JStr ''org_123'', projectId := JStr ''proj_456''\<rparr>)
      [(''user_id'', JStr ''alice''), (''org_name'', JStr ''other'')]) ''org_id'' = JStr ''org_123''
   \<and> ''org_name'' \<notin> fst ` set (addOrgProjectToOptions
      (test_client\<lparr>organizationName := JStr ''acme'', projectName := JStr ''demo'',
                    organizationId := JStr ''org_123'', projectId := JStr ''proj_456''\<rparr>)
      [(''user_id'', JStr ''alice''), (''org_name'', JStr ''other'')])"
  using id_pair_wins[of "test_client\<lparr>organizationName := JStr ''acme'', projectName := JStr ''demo'',
                    organizationId := JStr ''org_123'', projectId := JStr ''proj_456''\<rparr>"
        "[(''user_id'', JStr ''alice''), (''org_name'', JStr ''other'')]"]
  by simp

section \<open>Listing and search\<close>

text \<open>
  C3. \<^verbatim>\<open>getAll\<close> and \<^verbatim>\<open>search\<close> read the option \<^verbatim>\<open>api_version\<close> and nothing else
  to choose the wire format. The option \<^verbatim>\<open>version\<close>, which the type of the options
  documents as an alternative way to specify the API version, is never consulted:
  whenever \<^verbatim>\<open>api_version\<close> is not \<^verbatim>\<open>"v2"\<close>, whatever \<^verbatim>\<open>version\<close> holds, \<^verbatim>\<open>getAll\<close>
  issues a GET to \<^verbatim>\<open>/v1/memories/\<close> with the options (\<^verbatim>\<open>version\<close> among them) in the
  query string, and \<^verbatim>\<open>search\<close> issues a POST to \<^verbatim>\<open>/v1/memories/search/\<close>. With
  \<^verbatim>\<open>{ version: "v2" }\<close> the v2 format is therefore not selected.
\<close>

theorem version_alias_ignored:
  assumes "obj_get options ''api_version'' \<noteq> JStr ''v2''"
  shows "(\<exists>rq. snd (snd (getAll nt options st)) = snd st @ [(rq, nt (snd st) rq)]
            \<and> req_method rq = GET
            \<and> req_url rq =
                 host (fst st) @ ''/v1/memories/?''
                   @ URLSearchParams_toString (prepareParams (addOrgProjectToOptions (fst st)
                       (obj_rest [''api_version'', ''page'', ''page_size''] options)))
                   @ (if truthy (obj_get options ''page'') \<and> truthy (obj_get options ''page_size'')
                      then ''&page='' @ js_String (obj_get options ''page'')
                           @ ''&page_size='' @ js_String (obj_get options ''page_size'')
                      else [])
            \<and> req_body rq = None)
       \<and> (\<exists>rq. snd (snd (search nt query options st)) = snd st @ [(rq, nt (snd st) rq)]
            \<and> req_method rq = POST
            \<and> req_url rq = host (fst st) @ ''/v1/memories/search/''
            \<and> req_body rq = Some (JObj (obj_spread [(''query'', JStr query)]
                                (addOrgProjectToOptions (fst st) (obj_rest [''api_version''] options)))))"
  using assms by (simp add: getAll_def search_def Let_def fetch_trace)

theorem version_alias_ignored_witness:
  "obj_get [(''version'', JStr ''v2'')] ''version'' = JStr ''v2''
   \<and> map (\<lambda>x. (req_method (fst x), req_url (fst x), req_body (fst x)))
        (snd (snd (getAll (always (Responded \<lparr>status = 200, statusText = ''OK'',
                      body_text = ''[]'', body_json = Some (JArr [])\<rparr>))
                    [(''version'', JStr ''v2'')] (test_client, []))))
      = [(GET, ''https://api.mem0.ai/v1/memories/?version=v2'', None)]
   \<and> map (\<lambda>x. (req_method (fst x), req_url (fst x), req_body (fst x)))
        (snd (snd (search (always (Responded \<lparr>status = 200, statusText = ''OK'',
                      body_text = ''[]'', body_json = Some (JArr [])\<rparr>))
                    ''hobbies'' [(''version'', JStr ''v2'')] (test_client, []))))
      = [(POST, ''https://api.mem0.ai/v1/memories/search/'',
          Some (JObj [(''query'', JStr ''hobbies''), (''version'', JStr ''v2'')]))]"
proof -
  let ?N = "always (Responded \<lparr>status = 200, statusText = ''OK'',
                      body_text = ''[]'', body_json = Some (JArr [])\<rparr>)"
  let ?st = "(test_client, [] :: trace)"
  let ?o = "[(''version'', JStr ''v2'')]"
  have a: "obj_get ?o ''api_version'' \<noteq> JStr ''v2''"
    by (simp add: obj_get_def)
  have u: "host (fst ?st) @ ''/v1/memories/?''
             @ URLSearchParams_toString (prepareParams (addOrgProjectToOptions (fst ?st)
                 (obj_rest [''api_version'', ''page'', ''page_size''] ?o)))
             @ (if truthy (obj_get ?o ''page'') \<and> truthy (obj_get ?o ''page_size'')
                then ''&page='' @ js_String (obj_get ?o ''page'')
                     @ ''&page_size='' @ js_String (obj_get ?o ''page_size'')
                else [])
           = ''https://api.mem0.ai/v1/memories/?version=v2''"
    by (simp add: model_defs test_client_def)
  have b: "obj_spread [(''query'', JStr ''hobbies'')]
             (addOrgProjectToOptions (fst ?st) (obj_rest [''api_version''] ?o))
           = [(''query'', JStr ''hobbies''), (''version'', JStr ''v2'')]"
    by (simp add: model_defs test_client_def)
  have h: "host (fst ?st) @ ''/v1/memories/search/'' = ''https://api.mem0.ai/v1/memories/search/''"
    by (simp add: test_client_def)
  note th = version_alias_ignored[where options = "?o" and nt = "?N" and st = "?st"
              and query = "''hobbies''", OF a]
  from th[THEN conjunct1] have 1:
    "map (\<lambda>x. (req_method (fst x), req_url (fst x), req_body (fst x)))
        (snd (snd (getAll ?N ?o ?st)))
      = [(GET, ''https://api.mem0.ai/v1/memories/?version=v2'', None)]"
    unfolding u by auto
  from th[THEN conjunct2] have 2:
    "map (\<lambda>x. (req_method (fst x), req_url (fst x), req_body (fst x)))
        (snd (snd (search ?N ''hobbies'' ?o ?st)))
      = [(POST, ''https://api.mem0.ai/v1/memories/search/'',
          Some (JObj [(''query'', JStr ''hobbies''), (''version'', JStr ''v2'')]))]"
    unfolding b h by auto
  from 1 2 show ?thesis by (simp add: obj_get_def)
qed

text \<open>
  C4, as amended. The URL of \<^verbatim>\<open>getAll\<close> is the URL for the same options without
  \<^verbatim>\<open>page\<close> and \<^verbatim>\<open>page_size\<close>, followed by the fragment
  \<^verbatim>\<open>page=<n>&page_size=<m>\<close> (after \<^verbatim>\<open>&\<close> in the v1 format, after \<^verbatim>\<open>?\<close> in the v2
  format) exactly when both values are truthy; nothing is appended otherwise. A number
  stands in the fragment as \<^verbatim>\<open>String\<close> prints it (\<^verbatim>\<open>1e+21\<close> for \<open>10\<^sup>2\<^sup>1\<close>); \<^verbatim>\<open>NaN\<close>,
  like \<^verbatim>\<open>0\<close>, is falsy.
\<close>

theorem pagination_fragment:
  "\<exists>rq rq0.
      snd (snd (getAll nt options st)) = snd st @ [(rq, nt (snd st) rq)]
    \<and> snd (snd (getAll nt (obj_rest [''page'', ''page_size''] options) st))
        = snd st @ [(rq0, nt (snd st) rq0)]
    \<and> req_url rq =
        req_url rq0 @
        (if truthy (obj_get options ''page'') \<and> truthy (obj_get options ''page_size'')
         then (if obj_get options ''api_version'' = JStr ''v2'' then ''?'' else ''&'')
              @ ''page='' @ js_String (obj_get options ''page'')
              @ ''&page_size='' @ js_String (obj_get options ''page_size'')
         else [])"
proof -
  have g: "obj_get (obj_rest ks ob) k = (if k \<in> set ks then JUndefined else obj_get ob k)" for ks ob k
    by (induction ob) (auto simp: obj_get_def obj_rest_def)
  have r: "obj_rest [''api_version'', ''page'', ''page_size''] (obj_rest [''page'', ''page_size''] options)
           = obj_rest [''api_version'', ''page'', ''page_size''] options"
    by (induction options) (auto simp: obj_rest_def)
  show ?thesis
    by (simp add: getAll_def Let_def fetch_trace g r)
qed

theorem pagination_fragment_witness:
  "map (\<lambda>x. req_url (fst x))
        (snd (snd (getAll (always (Responded \<lparr>status = 200, statusText = ''OK'',
                      body_text = ''[]'', body_json = Some (JArr [])\<rparr>))
                    [(''user_id'', JStr ''alice''), (''page'', JNum (int_num 1)), (''page_size'', JNum (int_num 10))]
                    (test_client, []))))
      = [''https://api.mem0.ai/v1/memories/?user_id=alice&page=1&page_size=10'']
   \<and> map (\<lambda>x. req_url (fst x))
        (snd (snd (getAll (always (Responded \<lparr>status = 200, statusText = ''OK'',
                      body_text = ''[]'', body_json = Some (JArr [])\<rparr>))
                    [(''user_id'', JStr ''alice''), (''page'', JNum (int_num 1))]
                    (test_client, []))))
      = [''https://api.mem0.ai/v1/memories/?user_id=alice'']
   \<and> map (\<lambda>x. req_url (fst x))
        (snd (snd (getAll (always (Responded \<lparr>status = 200, statusText = ''OK'',
                      body_text = ''[]'', body_json = Some (JArr [])\<rparr>))
                    [(''user_id'', JStr ''alice''), (''page'', JNum (NumDec False 1 21)),
                     (''page_size'', JNum (NumDec False 25 (- 1)))]
                    (test_client, []))))
      = [''https://api.mem0.ai/v1/memories/?user_id=alice&page=1e+21&page_size=2.5'']
   \<and> map (\<lambda>x. req_url (fst x))
        (snd (snd (getAll (always (Responded \<lparr>status = 200, statusText = ''OK'',
                      body_text = ''[]'', body_json = Some (JArr [])\<rparr>))
                    [(''user_id'', JStr ''alice''), (''page'', JNum NumNaN),
                     (''page_size'', JNum (int_num 10))]
                    (test_client, []))))
      = [''https://api.mem0.ai/v1/memories/?user_id=alice'']"
proof -
  let ?N = "always (Responded \<lparr>status = 200, statusText = ''OK'',
                      body_text = ''[]'', body_json = Some (JArr [])\<rparr>)"
  let ?st = "(test_client, [] :: trace)"
  let ?a = "[(''user_id'', JStr ''alice''), (''page'', JNum (int_num 1)), (''page_size'', JNum (int_num 10))]"
  let ?b = "[(''user_id'', JStr ''alice''), (''page'', JNum (int_num 1))]"
  let ?c = "[(''user_id'', JStr ''alice''), (''page'', JNum (NumDec False 1 21)),
             (''page_size'', JNum (NumDec False 25 (- 1)))]"
  let ?d = "[(''user_id'', JStr ''alice''), (''page'', JNum NumNaN), (''page_size'', JNum (int_num 10))]"
  have u0: "map (\<lambda>x. req_url (fst x)) (snd (snd (getAll ?N
               (obj_rest [''page'', ''page_size''] ob) ?st)))
            = [''https://api.mem0.ai/v1/memories/?user_id=alice'']"
    if "ob = ?a \<or> ob = ?b \<or> ob = ?c \<or> ob = ?d" for ob
    using that by (auto simp add: model_defs always_def test_client_def)
  from pagination_fragment[of ?N ?a ?st] u0[of ?a]
  have 1: "map (\<lambda>x. req_url (fst x)) (snd (snd (getAll ?N ?a ?st)))
            = [''https://api.mem0.ai/v1/memories/?user_id=alice&page=1&page_size=10'']"
    by (auto simp: obj_get_def num_defs)
  from pagination_fragment[of ?N ?b ?st] u0[of ?b]
  have 2: "map (\<lambda>x. req_url (fst x)) (snd (snd (getAll ?N ?b ?st)))
            = [''https://api.mem0.ai/v1/memories/?user_id=alice'']"
    by (auto simp: obj_get_def)
  from pagination_fragment[of ?N ?c ?st] u0[of ?c]
  have 3: "map (\<lambda>x. req_url (fst x)) (snd (snd (getAll ?N ?c ?st)))
            = [''https://api.mem0.ai/v1/memories/?user_id=alice&page=1e+21&page_size=2.5'']"
    by (auto simp: obj_get_def num_defs)
  from pagination_fragment[of ?N ?d ?st] u0[of ?d]
  have 4: "map (\<lambda>x. req_url (fst x)) (snd (snd (getAll ?N ?d ?st)))
            = [''https://api.mem0.ai/v1/memories/?user_id=alice'']"
    by (auto simp: obj_get_def)
  from 1 2 3 4 show ?thesis by simp
qed

text \<open>
  The claim as stated fails for a value that is present and falsy: with
  \<^verbatim>\<open>{ page: 0, page_size: 10 }\<close> both options are present and no fragment is appended,
  in either format.
\<close>

theorem pagination_present_counterexample:
  "obj_get [(''page'', JNum (int_num 0)), (''page_size'', JNum (int_num 10))] ''page'' \<noteq> JUndefined
   \<and> obj_get [(''page'', JNum (int_num 0)), (''page_size'', JNum (int_num 10))] ''page_size'' \<noteq> JUndefined
   \<and> map (\<lambda>x. req_url (fst x))
        (snd (snd (getAll (always (Responded \<lparr>status = 200, statusText = ''OK'',
                      body_text = ''[]'', body_json = Some (JArr [])\<rparr>))
                    [(''page'', JNum (int_num 0)), (''page_size'', JNum (int_num 10))] (test_client, []))))
      = [''https://api.mem0.ai/v1/memories/?'']
   \<and> map (\<lambda>x. req_url (fst x))
        (snd (snd (getAll (always (Responded \<lparr>status = 200, statusText = ''OK'',
                      body_text = ''[]'', body_json = Some (JArr [])\<rparr>))
                    [(''api_version'', JStr ''v2''), (''page'', JNum (int_num 0)), (''page_size'', JNum (int_num 10))]
                    (test_client, []))))
      = [''https://api.mem0.ai/v2/memories/'']"
  by (simp add: model_defs always_def test_client_def)

section \<open>The connectivity check\<close>

text \<open>
  C5, as amended. When the request of \<^verbatim>\<open>ping\<close> is answered with a status from 200 to
  299: a parsed body that is an object with a \<^verbatim>\<open>status\<close> field other than
  \<^verbatim>\<open>"ok"\<close> makes \<^verbatim>\<open>ping\<close> throw the API error with status 401, whose message ends
  in the body's \<^verbatim>\<open>message\<close> (a default text when the body has none) and so contains a
  message the server supplied; an object with the \<^verbatim>\<open>status\<close> \<^verbatim>\<open>"ok"\<close> makes
  \<^verbatim>\<open>ping\<close> return; a parsed body that is not an object makes \<^verbatim>\<open>ping\<close> throw the
  API error with status 500.
\<close>

theorem ping_status_check:
  assumes "nt (snd st) \<lparr>req_url = host (fst st) @ ''/v1/ping/'', req_method = GET,
                         req_headers = headers (fst st), req_body = None\<rparr> = Responded r"
      and "resp_ok r"
      and "body_json r = Some b"
  shows "(truthy b \<and> typeof_object b \<and> js_prop b ''status'' \<noteq> JStr ''ok'' \<longrightarrow>
            (\<exists>msg. fst (ping nt st) = Inl (APIError 401 msg)
               \<and> msg = ''API request failed with status 401: ''
                        @ js_String (nullish (js_prop b ''message'') (JStr ''API Key is invalid''))
               \<and> (\<forall>m. js_prop b ''message'' = JStr m \<longrightarrow> sublist m msg)))
       \<and> (truthy b \<and> typeof_object b \<and> js_prop b ''status'' = JStr ''ok'' \<longrightarrow>
            fst (ping nt st) = Inr JUndefined)
       \<and> (\<not> (truthy b \<and> typeof_object b) \<longrightarrow>
            fst (ping nt st) = Inl (APIError 500
              ''API request failed with status 500: Invalid response format from ping endpoint''))"
proof -
  let ?f = "fetchWithErrorHandling nt (host (fst st) @ ''/v1/ping/'') GET None st"
  have f: "?f = (Inr b, (fst st, snd st @ [(\<lparr>req_url = host (fst st) @ ''/v1/ping/'', req_method = GET,
                         req_headers = headers (fst st), req_body = None\<rparr>, Responded r)]))"
    using assms by (simp add: fetchWithErrorHandling_def Let_def)
  have ok: "truthy b \<Longrightarrow> typeof_object b \<Longrightarrow> js_prop b ''status'' = JStr ''ok''
              \<Longrightarrow> fst (ping nt st) = Inr JUndefined"
    by (simp add: ping_def f Let_def)
  have bad: "truthy b \<Longrightarrow> typeof_object b \<Longrightarrow> js_prop b ''status'' \<noteq> JStr ''ok'' \<Longrightarrow>
      fst (ping nt st) = Inl (APIError 401 (''API request failed with status 401: ''
                        @ js_String (nullish (js_prop b ''message'') (JStr ''API Key is invalid''))))"
    by (simp add: ping_def f new_APIError_def show_nat_401)
  have sub: "js_prop b ''message'' = JStr m \<Longrightarrow>
       sublist m (''API request failed with status 401: ''
                        @ js_String (nullish (js_prop b ''message'') (JStr ''API Key is invalid'')))" for m
    using sublist_appendI[of m "''API request failed with status 401: ''" "[]"]
    by (simp add: nullish_def)
  have fmt: "\<not> (truthy b \<and> typeof_object b) \<Longrightarrow>
       fst (ping nt st) = Inl (APIError 500
              ''API request failed with status 500: Invalid response format from ping endpoint'')"
    by (auto simp add: ping_def f new_APIError_def show_nat_500)
  show ?thesis using ok bad sub fmt by blast
qed

theorem ping_status_check_witness:
  \<open>(\<exists>msg. fst (ping (always ping_invalid_key) (test_client, [])) = Inl (APIError 401 msg)
        \<and> sublist ''Invalid API key'' msg)
   \<and> fst (ping (always ping_learns) (test_client, [])) = Inr JUndefined
   \<and> fst (ping (always (json_ok ''"pong"'' (JStr ''pong''))) (test_client, []))
       = Inl (APIError 500
              ''API request failed with status 500: Invalid response format from ping endpoint'')\<close>
proof -
  let ?b1 = "JObj [(''status'', JStr ''error''), (''message'', JStr ''Invalid API key'')]"
  let ?b2 = "JObj [(''status'', JStr ''ok''), (''org_id'', JStr ''org_1''),
                   (''project_id'', JStr ''proj_1'')]"
  let ?pong = \<open>json_ok ''"pong"'' (JStr ''pong'')\<close>
  obtain r1 where r1: "ping_invalid_key = Responded r1" "resp_ok r1" "body_json r1 = Some ?b1"
    by (simp add: ping_invalid_key_def json_ok_def resp_ok_def)
  obtain r2 where r2: "ping_learns = Responded r2" "resp_ok r2" "body_json r2 = Some ?b2"
    by (simp add: ping_learns_def json_ok_def resp_ok_def)
  obtain r3 where r3: "?pong = Responded r3" "resp_ok r3" "body_json r3 = Some (JStr ''pong'')"
    by (simp add: json_ok_def resp_ok_def)
  have 1: "(\<exists>msg. fst (ping (always ping_invalid_key) (test_client, [])) = Inl (APIError 401 msg)
             \<and> sublist ''Invalid API key'' msg)"
    using ping_status_check[of "always ping_invalid_key" "(test_client, [])" r1 ?b1, OF _ r1(2,3)] r1(1)
    by (simp add: always_def obj_get_def)
  have 2: "fst (ping (always ping_learns) (test_client, [])) = Inr JUndefined"
    using ping_status_check[of "always ping_learns" "(test_client, [])" r2 ?b2, OF _ r2(2,3)] r2(1)
    by (simp add: always_def obj_get_def)
  have 3: "fst (ping (always ?pong) (test_client, []))
       = Inl (APIError 500
              ''API request failed with status 500: Invalid response format from ping endpoint'')"
    using ping_status_check[of "always ?pong" "(test_client, [])" r3 "JStr ''pong''", OF _ r3(2,3)] r3(1)
    by (simp add: always_def)
  from 1 2 3 show ?thesis by simp
qed

text \<open>
  The claim as stated fails for a body that is not an object: a 2xx response whose body
  is the JSON string \<^verbatim>\<open>"pong"\<close> has no \<^verbatim>\<open>status\<close> \<^verbatim>\<open>"ok"\<close>, and \<^verbatim>\<open>ping\<close> throws
  the API error with status 500, not 401.
\<close>

theorem ping_not_object_counterexample:
  \<open>resp_ok \<lparr>status = 200, statusText = ''OK'', body_text = ''"pong"'',
             body_json = Some (JStr ''pong'')\<rparr>
   \<and> js_prop (JStr ''pong'') ''status'' \<noteq> JStr ''ok''
   \<and> ping (always (Responded \<lparr>status = 200, statusText = ''OK'', body_text = ''"pong"'',
                                body_json = Some (JStr ''pong'')\<rparr>)) (test_client, [])
       = (Inl (APIError 500
                ''API request failed with status 500: Invalid response format from ping endpoint''),
          (test_client,
           [(\<lparr>req_url = ''https://api.mem0.ai/v1/ping/'', req_method = GET,
               req_headers = [(''Authorization'', ''Token test-key''),
                              (''Content-Type'', ''application/json'')],
               req_body = None\<rparr>,
             Responded \<lparr>status = 200, statusText = ''OK'', body_text = ''"pong"'',
                         body_json = Some (JStr ''pong'')\<rparr>)]))\<close>
  by (simp add: ping_def fetchWithErrorHandling_def resp_ok_def always_def test_client_def
        new_APIError_def show_nat_500)

section \<open>Updating a memory\<close>

text \<open>
  C8. For every memory id, \<^verbatim>\<open>update\<close> with neither \<^verbatim>\<open>text\<close> nor \<^verbatim>\<open>metadata\<close>
  (both read as \<^verbatim>\<open>undefined\<close>) throws the local validation error and leaves the trace
  as it was; with at least one of them it does not throw that error and issues exactly
  one request, the PUT of the data to the memory's URL.
\<close>

theorem update_validation:
  "(obj_get data ''text'' = JUndefined \<and> obj_get data ''metadata'' = JUndefined \<longrightarrow>
      update nt memoryId data st
        = (Inl (Error ''Either text or metadata must be provided for update.''), st))
   \<and> (obj_get data ''text'' \<noteq> JUndefined \<or> obj_get data ''metadata'' \<noteq> JUndefined \<longrightarrow>
      fst (update nt memoryId data st)
        \<noteq> Inl (Error ''Either text or metadata must be provided for update.'')
      \<and> (\<exists>rq. snd (snd (update nt memoryId data st)) = snd st @ [(rq, nt (snd st) rq)]
            \<and> req_url rq = host (fst st) @ ''/v1/memories/'' @ memoryId @ ''/''
            \<and> req_method rq = PUT \<and> req_body rq = Some (JObj data)))"
proof -
  have "fst (fetchWithErrorHandling nt u m b st)
          \<noteq> Inl (Error ''Either text or metadata must be provided for update.'')" for u m b
    by (simp add: fetchWithErrorHandling_def Let_def new_APIError_def
          split: fetch_outcome.split option.split)
  then show ?thesis
    by (auto simp: update_def fetch_trace)
qed

theorem update_validation_witness:
  "update (always (Responded \<lparr>status = 200, statusText = ''OK'', body_text = ''[]'',
                                body_json = Some (JArr [])\<rparr>))
      ''mem_123'' [] (test_client, [])
     = (Inl (Error ''Either text or metadata must be provided for update.''), (test_client, []))
   \<and> (\<exists>rq. snd (snd (update (always (Responded \<lparr>status = 200, statusText = ''OK'',
                                  body_text = ''[]'', body_json = Some (JArr [])\<rparr>))
                  ''mem_123'' [(''text'', JStr ''Updated memory'')] (test_client, [])))
               = [(rq, Responded \<lparr>status = 200, statusText = ''OK'', body_text = ''[]'',
                                  body_json = Some (JArr [])\<rparr>)]
            \<and> req_url rq = ''https://api.mem0.ai/v1/memories/mem_123/''
            \<and> req_method rq = PUT
            \<and> req_body rq = Some (JObj [(''text'', JStr ''Updated memory'')]))"
  using update_validation[of "[]" "always (Responded \<lparr>status = 200, statusText = ''OK'',
            body_text = ''[]'', body_json = Some (JArr [])\<rparr>)" "''mem_123''" "(test_client, [])"]
        update_validation[of "[(''text'', JStr ''Updated memory'')]"
          "always (Responded \<lparr>status = 200, statusText = ''OK'',
            body_text = ''[]'', body_json = Some (JArr [])\<rparr>)" "''mem_123''" "(test_client, [])"]
  by (simp add: obj_get_def always_def test_client_def)

section \<open>Deleting entities\<close>

lemma users_requests:
  "requests (snd (snd (users nt st))) = requests (snd st) @ [(GET, host (fst st) @ ''/v1/entities/?'' @ scope_query (fst st))]"
  by (simp add: users_def Let_def fetch_trace requests_def scope_query_def)

lemma users_client: "fst (snd (users nt st)) = fst st"
  by (simp add: users_def Let_def fetch_client)

lemma loop_step:
  "fst st = c \<Longrightarrow>
   deleteUsers_loop nt (scope_query c) (e # es) st =
     (case fetchWithErrorHandling nt (entity_url c e) DELETE None st of
        (Inl err, st') \<Rightarrow> (Inl err, st')
      | (Inr v, st') \<Rightarrow> deleteUsers_loop nt (scope_query c) es st')"
  by (simp add: entity_url_def)


text \<open>Sending requests one after another.\<close>

lemma sequentially_requests: "map fst (sequentially nt tr rqs) = map fst tr @ rqs"
  by (induction rqs arbitrary: tr) simp_all

lemma sequentially_snoc:
  "sequentially nt tr (rqs @ [rq]) = sequentially nt tr rqs @ [(rq, nt (sequentially nt tr rqs) rq)]"
  by (induction rqs arbitrary: tr) simp_all

lemma reply_at_0: "reply_at nt tr (rq # rqs) 0 = nt tr rq"
  by (simp add: reply_at_def)

lemma reply_at_Suc: "reply_at nt tr (rq # rqs) (Suc i) = reply_at nt (tr @ [(rq, nt tr rq)]) rqs i"
  by (simp add: reply_at_def)

text \<open>The request primitive on a reply that succeeds, and on one that does not.\<close>

lemma fetch_succeeds:
  assumes "succeeds (nt (snd st) \<lparr>req_url = url, req_method = m, req_headers = headers (fst st), req_body = b\<rparr>)"
  shows "\<exists>v. fetchWithErrorHandling nt url m b st =
           (Inr v, (fst st, snd st @ [(\<lparr>req_url = url, req_method = m, req_headers = headers (fst st), req_body = b\<rparr>,
                nt (snd st) \<lparr>req_url = url, req_method = m, req_headers = headers (fst st), req_body = b\<rparr>)]))"
  using assms
  by (auto simp: fetchWithErrorHandling_def Let_def succeeds_def split: fetch_outcome.splits option.splits)

lemma fetch_fails:
  assumes "\<not> succeeds (nt (snd st) \<lparr>req_url = url, req_method = m, req_headers = headers (fst st), req_body = b\<rparr>)"
  shows "\<exists>err. fetchWithErrorHandling nt url m b st =
           (Inl err, (fst st, snd st @ [(\<lparr>req_url = url, req_method = m, req_headers = headers (fst st), req_body = b\<rparr>,
                nt (snd st) \<lparr>req_url = url, req_method = m, req_headers = headers (fst st), req_body = b\<rparr>)]))"
  using assms
  by (auto simp: fetchWithErrorHandling_def Let_def succeeds_def split: fetch_outcome.splits option.splits)

text \<open>
  The loop against the service: when every reply succeeds it sends every request; when
  the reply at \<open>k\<close> is the first that does not, it stops there with the error of that
  request.
\<close>

lemma loop_sequentially:
  assumes "\<forall>i<length es. succeeds (reply_at nt tr (map (delete_request c) es) i)"
  shows "deleteUsers_loop nt (scope_query c) (map (\<lambda>e. (js_prop e ''type'', js_prop e ''name'')) es) (c, tr)
           = (Inr (), (c, sequentially nt tr (map (delete_request c) es)))"
  using assms
proof (induction es arbitrary: tr)
  case Nil
  show ?case by simp
next
  case (Cons e es)
  let ?rq = "delete_request c e"
  have s0: "succeeds (nt tr ?rq)" using Cons.prems reply_at_0[of nt tr ?rq "map (delete_request c) es"] by auto
  have rest: "\<forall>i<length es. succeeds (reply_at nt (tr @ [(?rq, nt tr ?rq)]) (map (delete_request c) es) i)"
    using Cons.prems reply_at_Suc[of nt tr ?rq "map (delete_request c) es"] by auto
  from fetch_succeeds[of nt "(c, tr)" "entity_url c (js_prop e ''type'', js_prop e ''name'')" DELETE None] s0
  obtain v where f: "fetchWithErrorHandling nt (entity_url c (js_prop e ''type'', js_prop e ''name'')) DELETE None (c, tr)
       = (Inr v, (c, tr @ [(?rq, nt tr ?rq)]))"
    by (auto simp: delete_request_def)
  show ?case using f Cons.IH[OF rest]
    by (simp add: loop_step del: deleteUsers_loop.simps)
qed

lemma loop_first_failure:
  assumes "k < length es"
      and "\<forall>i<k. succeeds (reply_at nt tr (map (delete_request c) es) i)"
      and "\<not> succeeds (reply_at nt tr (map (delete_request c) es) k)"
  shows "\<exists>err. fetchWithErrorHandling nt (req_url (map (delete_request c) es ! k)) DELETE None
                  (c, sequentially nt tr (take k (map (delete_request c) es)))
               = (Inl err, (c, sequentially nt tr (take (Suc k) (map (delete_request c) es))))
             \<and> deleteUsers_loop nt (scope_query c) (map (\<lambda>e. (js_prop e ''type'', js_prop e ''name'')) es) (c, tr)
               = (Inl err, (c, sequentially nt tr (take (Suc k) (map (delete_request c) es))))"
  using assms
proof (induction es arbitrary: tr k)
  case Nil
  then show ?case by simp
next
  case (Cons e es)
  let ?rq = "delete_request c e"
  let ?u = "entity_url c (js_prop e ''type'', js_prop e ''name'')"
  show ?case
  proof (cases k)
    case 0
    have "\<not> succeeds (nt tr ?rq)" using Cons.prems(3) 0 by (simp add: reply_at_0)
    with fetch_fails[of nt "(c, tr)" ?u DELETE None]
    obtain err where f: "fetchWithErrorHandling nt ?u DELETE None (c, tr)
       = (Inl err, (c, tr @ [(?rq, nt tr ?rq)]))"
      by (auto simp: delete_request_def)
    have u: "req_url ?rq = ?u" by (simp add: delete_request_def)
    show ?thesis using f 0 u by (simp add: loop_step del: deleteUsers_loop.simps)
  next
    case (Suc j)
    have s0: "succeeds (nt tr ?rq)" using Cons.prems(2) Suc reply_at_0[of nt tr ?rq "map (delete_request c) es"] by auto
    from fetch_succeeds[of nt "(c, tr)" ?u DELETE None] s0
    obtain v where f: "fetchWithErrorHandling nt ?u DELETE None (c, tr)
       = (Inr v, (c, tr @ [(?rq, nt tr ?rq)]))"
      by (auto simp: delete_request_def)
    have j: "j < length es" using Cons.prems(1) Suc by simp
    have pre: "\<forall>i<j. succeeds (reply_at nt (tr @ [(?rq, nt tr ?rq)]) (map (delete_request c) es) i)"
      using Cons.prems(2) Suc reply_at_Suc[of nt tr ?rq "map (delete_request c) es"] by auto
    have fl: "\<not> succeeds (reply_at nt (tr @ [(?rq, nt tr ?rq)]) (map (delete_request c) es) j)"
      using Cons.prems(3) Suc reply_at_Suc[of nt tr ?rq "map (delete_request c) es"] by auto
    from Cons.IH[OF j pre fl] show ?thesis using f Suc
      by (simp add: loop_step del: deleteUsers_loop.simps)
  qed
qed

lemma users_listing:
  assumes "nt (snd st) (listing_request (fst st)) = Responded r"
      and "resp_ok r" and "body_json r = Some entities"
  shows "users nt st = (Inr entities, (fst st, snd st @ [(listing_request (fst st), Responded r)]))"
  using assms
  by (simp add: users_def Let_def fetchWithErrorHandling_def listing_request_def scope_query_def)

lemma deleteUsers_bulk:
  assumes "\<not> truthy (obj_get params ''user_id'')" and "\<not> truthy (obj_get params ''agent_id'')"
      and "\<not> truthy (obj_get params ''app_id'')" and "\<not> truthy (obj_get params ''run_id'')"
      and "users nt st = (Inr entities, st1)"
      and "entity_targets entities = Inr toDelete"
  shows "deleteUsers nt params st =
           (if toDelete = [] then (Inl (Error ''No entities to delete''), st1)
            else case deleteUsers_loop nt (scope_query (fst st)) toDelete st1 of
                   (Inl e, st2) \<Rightarrow> (Inl e, st2)
                 | (Inr u, st2) \<Rightarrow>
                     (Inr (JObj [(''message'', JStr ''All users, agents, apps and runs deleted.'')]), st2))"
proof -
  have "fst st1 = fst st" using users_client[of nt st] assms(5) by simp
  then show ?thesis using assms
    by (simp add: deleteUsers_def Let_def js_or_def scope_query_def del: deleteUsers_loop.simps)
qed

text \<open>
  C7. When none of the four identifiers is given (each is absent or falsy) and the
  listing answers with an empty \<^verbatim>\<open>results\<close> array, \<^verbatim>\<open>deleteUsers\<close> throws the
  local error \<^verbatim>\<open>No entities to delete\<close>, and the only request it issued is the GET
  of the listing.
\<close>

theorem deleteUsers_nothing_to_delete:
  assumes "\<not> truthy (obj_get params ''user_id'')" and "\<not> truthy (obj_get params ''agent_id'')"
      and "\<not> truthy (obj_get params ''app_id'')" and "\<not> truthy (obj_get params ''run_id'')"
      and "users nt st = (Inr entities, st1)"
      and "js_prop entities ''results'' = JArr []"
  shows "deleteUsers nt params st = (Inl (Error ''No entities to delete''), st1)
       \<and> requests (snd st1) = requests (snd st)
            @ [(GET, host (fst st) @ ''/v1/entities/?'' @ scope_query (fst st))]"
proof -
  have "entities \<noteq> JNull" "entities \<noteq> JUndefined" using assms(6) by auto
  then have t: "entity_targets entities = Inr []"
    using assms(6) by (simp add: entity_targets_def)
  have "requests (snd st1) = requests (snd st)
            @ [(GET, host (fst st) @ ''/v1/entities/?'' @ scope_query (fst st))]"
    using users_requests[of nt st] assms(5) by simp
  then show ?thesis using deleteUsers_bulk[OF assms(1-5) t] by simp
qed

theorem deleteUsers_nothing_to_delete_witness:
  "fst (deleteUsers (always empty_listing) [] (test_client, [])) = Inl (Error ''No entities to delete'')
   \<and> requests (snd (snd (deleteUsers (always empty_listing) [] (test_client, []))))
       = [(GET, ''https://api.mem0.ai/v1/entities/?'')]"
proof -
  define st1 where "st1 = snd (users (always empty_listing) (test_client, []))"
  let ?entities = "JObj [(''count'', JNum (int_num 0)), (''results'', JArr []), (''next'', JNull),
                         (''previous'', JNull)]"
  have u: "users (always empty_listing) (test_client, []) = (Inr ?entities, st1)"
    unfolding st1_def by (simp add: model_defs scope_query_def entity_url_def requests_def always_def test_client_def json_ok_def empty_listing_def)
  have r: "js_prop ?entities ''results'' = JArr []" by (simp add: obj_get_def)
  have f: "\<not> truthy (obj_get [] k)" for k by (simp add: obj_get_def)
  from deleteUsers_nothing_to_delete[OF f f f f u r]
  show ?thesis by (simp add: model_defs scope_query_def entity_url_def requests_def always_def test_client_def json_ok_def empty_listing_def)
qed

text \<open>
  C10. When one or more of the identifiers are given, \<^verbatim>\<open>deleteUsers\<close> issues
  exactly one request, the DELETE for the first given one in the order user, agent, app,
  run; the others play no part. The client takes an identifier as given when it is
  truthy: an identifier that is the empty string is passed over like an absent one.
\<close>

theorem deleteUsers_precedence:
  assumes "find (\<lambda>p. truthy (snd p))
             [(''user'', obj_get params ''user_id''), (''agent'', obj_get params ''agent_id''),
              (''app'', obj_get params ''app_id''), (''run'', obj_get params ''run_id'')]
           = Some (ty, v)"
  shows "requests (snd (snd (deleteUsers nt params st)))
           = requests (snd st)
             @ [(DELETE, host (fst st) @ ''/v2/entities/'' @ ty @ ''/'' @ js_String v
                           @ ''/?'' @ scope_query (fst st))]"
proof -
  have one: "requests (snd (snd (case deleteUsers_loop nt (scope_query (fst st)) [(JStr ty, v)] st of
                 (Inl e, st2) \<Rightarrow> (Inl e, st2)
               | (Inr u, st2) \<Rightarrow> (Inr (JObj m), st2))))
             = requests (snd st) @ [(DELETE, host (fst st) @ ''/v2/entities/'' @ ty @ ''/''
                   @ js_String v @ ''/?'' @ scope_query (fst st))]" for m
  proof -
    let ?f = "fetchWithErrorHandling nt (entity_url (fst st) (JStr ty, v)) DELETE None st"
    obtain res s1 where f: "?f = (res, s1)" by (cases ?f) auto
    have "requests (snd s1) = requests (snd st) @ [(DELETE, entity_url (fst st) (JStr ty, v))]"
      using fetch_requests[of nt "entity_url (fst st) (JStr ty, v)" DELETE None st] f by simp
    then show ?thesis using f
      by (cases res) (simp_all add: entity_url_def)
  qed
  from assms show ?thesis
    using one
    by (auto simp: deleteUsers_def Let_def scope_query_def split: if_splits
             simp del: deleteUsers_loop.simps)
qed

theorem deleteUsers_precedence_witness:
  "requests (snd (snd (deleteUsers (always (json_ok ''{}'' (JObj [])))
       [(''agent_id'', JStr ''bot''), (''user_id'', JStr ''alice'')] (test_client, []))))
     = [(DELETE, ''https://api.mem0.ai/v2/entities/user/alice/?'')]
   \<and> requests (snd (snd (deleteUsers (always (json_ok ''{}'' (JObj [])))
       [(''run_id'', JStr ''r1''), (''app_id'', JStr ''shop'')] (test_client, []))))
     = [(DELETE, ''https://api.mem0.ai/v2/entities/app/shop/?'')]"
proof -
  have 1: "find (\<lambda>p. truthy (snd p))
             [(''user'', obj_get [(''agent_id'', JStr ''bot''), (''user_id'', JStr ''alice'')] ''user_id''),
              (''agent'', obj_get [(''agent_id'', JStr ''bot''), (''user_id'', JStr ''alice'')] ''agent_id''),
              (''app'', obj_get [(''agent_id'', JStr ''bot''), (''user_id'', JStr ''alice'')] ''app_id''),
              (''run'', obj_get [(''agent_id'', JStr ''bot''), (''user_id'', JStr ''alice'')] ''run_id'')]
           = Some (''user'', JStr ''alice'')"
    by (simp add: obj_get_def)
  have 2: "find (\<lambda>p. truthy (snd p))
             [(''user'', obj_get [(''run_id'', JStr ''r1''), (''app_id'', JStr ''shop'')] ''user_id''),
              (''agent'', obj_get [(''run_id'', JStr ''r1''), (''app_id'', JStr ''shop'')] ''agent_id''),
              (''app'', obj_get [(''run_id'', JStr ''r1''), (''app_id'', JStr ''shop'')] ''app_id''),
              (''run'', obj_get [(''run_id'', JStr ''r1''), (''app_id'', JStr ''shop'')] ''run_id'')]
           = Some (''app'', JStr ''shop'')"
    by (simp add: obj_get_def)
  from deleteUsers_precedence[OF 1, of "always (json_ok ''{}'' (JObj []))" "(test_client, [])"]
       deleteUsers_precedence[OF 2, of "always (json_ok ''{}'' (JObj []))" "(test_client, [])"]
  show ?thesis by (simp add: model_defs scope_query_def entity_url_def requests_def always_def test_client_def json_ok_def)
qed

text \<open>
  C6. In the bulk path (no identifier given), let the listing be answered with a body
  whose \<^verbatim>\<open>results\<close> is the array \<open>rs\<close> of entities, none of them null. The DELETE
  requests are those of the entities of \<open>rs\<close>, in the order of \<open>rs\<close>, each sent after the
  reply to the one before. When the service answers every one of them with a success,
  \<^verbatim>\<open>deleteUsers\<close> returns its message and has issued the listing and one DELETE request
  per entity of \<open>rs\<close>, in order. When the reply to the DELETE request at position \<open>k\<close>
  (counting from 0) is the first that is not a success, \<^verbatim>\<open>deleteUsers\<close> throws the
  error that this request raised; the exchanges are the listing and the DELETE requests
  up to position \<open>k\<close> with their replies, so the deletions before \<open>k\<close> stay as the
  service applied them, nothing is sent to undo them, and no request is issued for the
  entities after \<open>k\<close>.
\<close>

theorem deleteUsers_bulk_sequential:
  assumes "\<not> truthy (obj_get params ''user_id'')" and "\<not> truthy (obj_get params ''agent_id'')"
      and "\<not> truthy (obj_get params ''app_id'')" and "\<not> truthy (obj_get params ''run_id'')"
      and "nt (snd st) (listing_request (fst st)) = Responded r"
      and "resp_ok r" and "body_json r = Some entities"
      and "js_prop entities ''results'' = JArr rs"
      and "\<forall>e \<in> set rs. e \<noteq> JNull \<and> e \<noteq> JUndefined"
      and "T = snd st @ [(listing_request (fst st), Responded r)]"
      and "D = map (delete_request (fst st)) rs"
  shows "(rs \<noteq> [] \<and> (\<forall>i<length D. succeeds (reply_at nt T D i)) \<longrightarrow>
            deleteUsers nt params st
              = (Inr (JObj [(''message'', JStr ''All users, agents, apps and runs deleted.'')]),
                 (fst st, sequentially nt T D))
          \<and> map fst (snd (snd (deleteUsers nt params st)))
              = map fst (snd st) @ listing_request (fst st) # D)
       \<and> (\<forall>k<length D.
            (\<forall>i<k. succeeds (reply_at nt T D i)) \<and> \<not> succeeds (reply_at nt T D k) \<longrightarrow>
            (\<exists>err. fetchWithErrorHandling nt (req_url (D ! k)) DELETE None
                      (fst st, sequentially nt T (take k D))
                    = (Inl err, (fst st, sequentially nt T (take (Suc k) D)))
                  \<and> deleteUsers nt params st = (Inl err, (fst st, sequentially nt T (take (Suc k) D))))
          \<and> map fst (snd (snd (deleteUsers nt params st)))
              = map fst (snd st) @ listing_request (fst st) # take (Suc k) D)"
proof -
  let ?c = "fst st"
  let ?tg = "map (\<lambda>e. (js_prop e ''type'', js_prop e ''name'')) rs"
  have u: "users nt st = (Inr entities, (?c, T))"
    using users_listing[of nt st r entities] assms(5-7,10) by simp
  have "entities \<noteq> JNull" "entities \<noteq> JUndefined" using assms(8) by auto
  moreover have "\<not> list_ex (\<lambda>e. e = JNull \<or> e = JUndefined) rs"
    using assms(9) by (auto simp: list_ex_iff)
  ultimately have t: "entity_targets entities = Inr ?tg"
    using assms(8) by (simp add: entity_targets_def)
  note bulk = deleteUsers_bulk[OF assms(1-4) u t]
  have all: "deleteUsers nt params st
              = (Inr (JObj [(''message'', JStr ''All users, agents, apps and runs deleted.'')]),
                 (fst st, sequentially nt T D))
          \<and> map fst (snd (snd (deleteUsers nt params st)))
              = map fst (snd st) @ listing_request (fst st) # D"
    if ne: "rs \<noteq> []" and ok: "\<forall>i<length D. succeeds (reply_at nt T D i)"
  proof -
    have "deleteUsers_loop nt (scope_query ?c) ?tg (?c, T) = (Inr (), (?c, sequentially nt T D))"
      using loop_sequentially[of rs nt T ?c] ok assms(11) by simp
    then have "deleteUsers nt params st
              = (Inr (JObj [(''message'', JStr ''All users, agents, apps and runs deleted.'')]),
                 (fst st, sequentially nt T D))"
      using bulk ne by simp
    then show ?thesis by (simp add: sequentially_requests assms(10))
  qed
  have part: "(\<exists>err. fetchWithErrorHandling nt (req_url (D ! k)) DELETE None
                      (fst st, sequentially nt T (take k D))
                    = (Inl err, (fst st, sequentially nt T (take (Suc k) D)))
                  \<and> deleteUsers nt params st = (Inl err, (fst st, sequentially nt T (take (Suc k) D))))
          \<and> map fst (snd (snd (deleteUsers nt params st)))
              = map fst (snd st) @ listing_request (fst st) # take (Suc k) D"
    if k: "k < length D" and ok: "\<forall>i<k. succeeds (reply_at nt T D i)"
      and fl: "\<not> succeeds (reply_at nt T D k)" for k
  proof -
    have k': "k < length rs" using k assms(11) by simp
    then have ne: "rs \<noteq> []" by auto
    from loop_first_failure[of k rs nt T ?c] k' ok fl assms(11)
    obtain err where
      f: "fetchWithErrorHandling nt (req_url (D ! k)) DELETE None (?c, sequentially nt T (take k D))
               = (Inl err, (?c, sequentially nt T (take (Suc k) D)))"
      and l: "deleteUsers_loop nt (scope_query ?c) ?tg (?c, T)
               = (Inl err, (?c, sequentially nt T (take (Suc k) D)))"
      by auto
    have d: "deleteUsers nt params st = (Inl err, (?c, sequentially nt T (take (Suc k) D)))"
      using bulk ne l by simp
    show ?thesis using f d by (simp add: sequentially_requests assms(10))
  qed
  from all part show ?thesis by blast
qed

theorem deleteUsers_bulk_sequential_witness:
  "fst (deleteUsers failing_second_delete [] (test_client, []))
     = Inl (APIError 500 ''API request failed with status 500: boom'')
   \<and> requests (snd (snd (deleteUsers failing_second_delete [] (test_client, []))))
     = [(GET, ''https://api.mem0.ai/v1/entities/?''),
        (DELETE, ''https://api.mem0.ai/v2/entities/user/alice/?''),
        (DELETE, ''https://api.mem0.ai/v2/entities/agent/bot/?'')]
   \<and> fst (deleteUsers deleting_all [] (test_client, []))
     = Inr (JObj [(''message'', JStr ''All users, agents, apps and runs deleted.'')])
   \<and> requests (snd (snd (deleteUsers deleting_all [] (test_client, []))))
     = [(GET, ''https://api.mem0.ai/v1/entities/?''),
        (DELETE, ''https://api.mem0.ai/v2/entities/user/alice/?''),
        (DELETE, ''https://api.mem0.ai/v2/entities/agent/bot/?''),
        (DELETE, ''https://api.mem0.ai/v2/entities/app/shop/?'')]"
proof -
  let ?N = failing_second_delete
  let ?st = "(test_client, [] :: trace)"
  let ?M = deleting_all
  let ?rs = "[JObj [(''type'', JStr ''user''), (''name'', JStr ''alice'')],
              JObj [(''type'', JStr ''agent''), (''name'', JStr ''bot'')],
              JObj [(''type'', JStr ''app''), (''name'', JStr ''shop'')]]"
  let ?entities = "JObj [(''results'', JArr ?rs)]"
  define r where
    \<open>r = \<lparr>status = 200, statusText = ''OK'',
          body_text = ''{"results":[{"type":"user","name":"alice"},{"type":"agent","name":"bot"},{"type":"app","name":"shop"}]}'',
          body_json = Some ?entities\<rparr>\<close>
  define T where "T = snd ?st @ [(listing_request (fst ?st), Responded r)]"
  define D where "D = map (delete_request (fst ?st)) ?rs"
  note defs = model_defs scope_query_def entity_url_def requests_def test_client_def json_ok_def
    sample_listing_def failing_second_delete_def deleting_all_def listing_request_def
    delete_request_def succeeds_def reply_at_def
  have f: "\<not> truthy (obj_get [] k)" for k by (simp add: obj_get_def)
  have lN: "?N (snd ?st) (listing_request (fst ?st)) = Responded r"
    by (simp add: r_def failing_second_delete_def sample_listing_def json_ok_def)
  have lM: "?M (snd ?st) (listing_request (fst ?st)) = Responded r"
    by (simp add: r_def deleting_all_def sample_listing_def json_ok_def)
  have ok: "resp_ok r" by (simp add: r_def resp_ok_def)
  have bj: "body_json r = Some ?entities" by (simp add: r_def)
  have res: "js_prop ?entities ''results'' = JArr ?rs" by (simp add: obj_get_def)
  have nn: "\<forall>e \<in> set ?rs. e \<noteq> JNull \<and> e \<noteq> JUndefined" by simp
  have len: "length D = 3" by (simp add: D_def)
  have lt: "length T = 1" by (simp add: T_def)
  have N0: "succeeds (reply_at ?N T D 0)"
    by (simp add: reply_at_def failing_second_delete_def lt succeeds_def json_ok_def resp_ok_def)
  have N1: "\<not> succeeds (reply_at ?N T D 1)"
    by (simp add: reply_at_def D_def failing_second_delete_def lt succeeds_def json_ok_def resp_ok_def)
  have ll: "length (sequentially nt tr xs) = length tr + length xs" for nt tr xs
    using arg_cong[OF sequentially_requests[of nt tr xs], of length] by simp
  have Mall: "\<forall>i<length D. succeeds (reply_at ?M T D i)"
    by (simp add: reply_at_def deleting_all_def ll lt succeeds_def json_ok_def resp_ok_def)
  have urls: "map (\<lambda>x. (req_method x, req_url x)) (listing_request test_client # D)
     = [(GET, ''https://api.mem0.ai/v1/entities/?''),
        (DELETE, ''https://api.mem0.ai/v2/entities/user/alice/?''),
        (DELETE, ''https://api.mem0.ai/v2/entities/agent/bot/?''),
        (DELETE, ''https://api.mem0.ai/v2/entities/app/shop/?'')]"
    by (simp add: D_def defs)
  have rq: "requests tr = map (\<lambda>x. (req_method x, req_url x)) (map fst tr)" for tr
    by (simp add: requests_def)
  note thN = deleteUsers_bulk_sequential[where params = "[]" and nt = "?N" and st = "?st"
      and r = r and entities = "?entities" and rs = "?rs" and T = T and D = D,
      OF f f f f lN ok bj res nn T_def D_def]
  note thM = deleteUsers_bulk_sequential[where params = "[]" and nt = "?M" and st = "?st"
      and r = r and entities = "?entities" and rs = "?rs" and T = T and D = D,
      OF f f f f lM ok bj res nn T_def D_def]
  from thN have "\<forall>k<length D.
            (\<forall>i<k. succeeds (reply_at ?N T D i)) \<and> \<not> succeeds (reply_at ?N T D k) \<longrightarrow>
            (\<exists>err. fetchWithErrorHandling ?N (req_url (D ! k)) DELETE None
                      (fst ?st, sequentially ?N T (take k D))
                    = (Inl err, (fst ?st, sequentially ?N T (take (Suc k) D)))
                  \<and> deleteUsers ?N [] ?st = (Inl err, (fst ?st, sequentially ?N T (take (Suc k) D))))
          \<and> map fst (snd (snd (deleteUsers ?N [] ?st)))
              = map fst (snd ?st) @ listing_request (fst ?st) # take (Suc k) D"
    by blast
  from this[rule_format, of 1] N0 N1 len
  obtain err where
    e1: "fetchWithErrorHandling ?N (req_url (D ! 1)) DELETE None (test_client, sequentially ?N T (take 1 D))
                    = (Inl err, (test_client, sequentially ?N T (take 2 D)))"
    and e2: "deleteUsers ?N [] ?st = (Inl err, (test_client, sequentially ?N T (take 2 D)))"
    and e3: "map fst (snd (snd (deleteUsers ?N [] ?st)))
              = listing_request test_client # take 2 D"
    by (auto simp: numeral_2_eq_2)
  have "fst (fetchWithErrorHandling ?N (req_url (D ! 1)) DELETE None (test_client, sequentially ?N T (take 1 D)))
          = Inl (APIError 500 ''API request failed with status 500: boom'')"
    by (simp add: D_def T_def fetchWithErrorHandling_def Let_def failing_second_delete_def
          resp_ok_def new_APIError_def show_nat.simps digit_char_def)
  with e1 have err: "err = APIError 500 ''API request failed with status 500: boom''" by simp
  have 1: "fst (deleteUsers ?N [] ?st) = Inl (APIError 500 ''API request failed with status 500: boom'')"
    using e2 err by simp
  have 2: "requests (snd (snd (deleteUsers ?N [] ?st)))
     = [(GET, ''https://api.mem0.ai/v1/entities/?''),
        (DELETE, ''https://api.mem0.ai/v2/entities/user/alice/?''),
        (DELETE, ''https://api.mem0.ai/v2/entities/agent/bot/?'')]"
    using urls[THEN arg_cong, of "take 3"] unfolding rq e3 by (simp add: D_def)
  have ne: "?rs \<noteq> []" by simp
  note m = thM[THEN conjunct1, THEN mp, OF conjI[OF ne Mall]]
  note m1 = m[THEN conjunct1]
  note m2 = m[THEN conjunct2]
  have 3: "fst (deleteUsers ?M [] ?st)
     = Inr (JObj [(''message'', JStr ''All users, agents, apps and runs deleted.'')])"
    using m1 by simp
  have 4: "requests (snd (snd (deleteUsers ?M [] ?st)))
     = [(GET, ''https://api.mem0.ai/v1/entities/?''),
        (DELETE, ''https://api.mem0.ai/v2/entities/user/alice/?''),
        (DELETE, ''https://api.mem0.ai/v2/entities/agent/bot/?''),
        (DELETE, ''https://api.mem0.ai/v2/entities/app/shop/?'')]"
    using urls unfolding rq m2 by simp
  from 1 2 3 4 show ?thesis by simp
qed

section \<open>The configuration\<close>

lemma deleteUsers_client: "fst (snd (deleteUsers nt params st)) = fst st"
proof -
  have l: "fst (snd (case deleteUsers_loop nt q es s of
                (Inl e, st2) \<Rightarrow> (Inl e, st2)
              | (Inr u, st2) \<Rightarrow> (Inr (JObj m), st2))) = fst s" for q es s m
  proof -
    obtain r s2 where x: "deleteUsers_loop nt q es s = (r, s2)"
      by (cases "deleteUsers_loop nt q es s") auto
    then show ?thesis using loop_client[of nt q es s] by (cases r) simp_all
  qed
  obtain ur us where u: "users nt st = (ur, us)" by (cases "users nt st") auto
  have uc: "fst us = fst st" using users_client[of nt st] u by simp
  show ?thesis
    unfolding deleteUsers_def Let_def
    using l uc u
    by (cases ur; cases "entity_targets (projr ur)")
       (auto simp del: deleteUsers_loop.simps)
qed

lemma run_client: "cl \<noteq> Ping \<Longrightarrow> fst (snd (run nt cl st)) = fst st"
proof (cases cl)
  case (DeleteUsers params)
  then show ?thesis by (simp add: deleteUsers_client)
next
  case (GetProject options)
  then show ?thesis by (simp add: getProject_def fetch_client split: sum.split)
qed (simp_all add: add_def update_def get_def getAll_def search_def delete_memory_def
      deleteAll_def history_def users_def deleteUser_def batchUpdate_def batchDelete_def
      updateProject_def getWebhooks_def createWebhook_def updateWebhook_def
      deleteWebhook_def feedback_def createMemoryExport_def getMemoryExport_def Let_def
      fetch_client)

text \<open>
  C9. A call other than \<^verbatim>\<open>ping\<close> leaves the client as it was. \<^verbatim>\<open>ping\<close> changes at
  most \<^verbatim>\<open>organizationId\<close> and \<^verbatim>\<open>projectId\<close>, and changes either only when the
  client holds no value for it and the response holds one, to the value of the response.
  The client's test for both is truthiness: null (what the constructor stores for a
  field that was not supplied) and the empty string hold no value.
\<close>

theorem config_frame:
  assumes "run nt cl st = (res, st')"
  shows "(cl \<noteq> Ping \<longrightarrow> fst st' = fst st)
       \<and> (cl = Ping \<longrightarrow>
            fst st' = (fst st)\<lparr>organizationId := organizationId (fst st'),
                               projectId := projectId (fst st')\<rparr>
          \<and> (organizationId (fst st') \<noteq> organizationId (fst st) \<longrightarrow>
                \<not> truthy (organizationId (fst st)) \<and> truthy (organizationId (fst st'))
              \<and> (\<exists>rq r b. last (snd st') = (rq, Responded r) \<and> body_json r = Some b
                           \<and> organizationId (fst st') = js_prop b ''org_id''))
          \<and> (projectId (fst st') \<noteq> projectId (fst st) \<longrightarrow>
                \<not> truthy (projectId (fst st)) \<and> truthy (projectId (fst st'))
              \<and> (\<exists>rq r b. last (snd st') = (rq, Responded r) \<and> body_json r = Some b
                           \<and> projectId (fst st') = js_prop b ''project_id'')))"
proof (cases cl)
  case Ping
  let ?u = "host (fst st) @ ''/v1/ping/''"
  let ?f = "fetchWithErrorHandling nt ?u GET None st"
  obtain r0 s0 where f: "?f = (r0, s0)" by (cases ?f) auto
  have c0: "fst s0 = fst st" using fetch_client[of nt ?u GET None st] f by simp
  show ?thesis
  proof (cases r0)
    case (Inl e)
    then have "st' = s0" using assms Ping f by (simp add: ping_def)
    then show ?thesis using Ping c0 by simp
  next
    case (Inr b)
    from fetch_Inr[of nt ?u GET None st b s0] f Inr obtain rq r where
      s0: "s0 = (fst st, snd st @ [(rq, Responded r)])" and j: "body_json r = Some b"
      by auto
    have tr: "snd st' = snd st @ [(rq, Responded r)]"
      using assms Ping f Inr s0 by (auto simp: ping_def Let_def split: if_splits)
    then have la: "last (snd st') = (rq, Responded r)" by simp
    have "fst st' = (fst st)\<lparr>organizationId := organizationId (fst st'),
                               projectId := projectId (fst st')\<rparr>
          \<and> (organizationId (fst st') \<noteq> organizationId (fst st) \<longrightarrow>
                \<not> truthy (organizationId (fst st)) \<and> truthy (organizationId (fst st'))
              \<and> organizationId (fst st') = js_prop b ''org_id'')
          \<and> (projectId (fst st') \<noteq> projectId (fst st) \<longrightarrow>
                \<not> truthy (projectId (fst st)) \<and> truthy (projectId (fst st'))
              \<and> projectId (fst st') = js_prop b ''project_id'')"
      using assms Ping f Inr s0 by (auto simp: ping_def Let_def split: if_splits)
    then show ?thesis using Ping la j by blast
  qed
qed (use assms run_client[of cl nt st] in auto)

theorem config_frame_witness:
  "fst (snd (run (always ping_learns) Ping (test_client, [])))
     = test_client\<lparr>organizationId := JStr ''org_1'', projectId := JStr ''proj_1''\<rparr>
   \<and> fst (snd (run (always ping_learns) Ping
                 (test_client\<lparr>organizationId := JStr ''org_0'', projectId := JStr ''proj_0''\<rparr>, [])))
     = test_client\<lparr>organizationId := JStr ''org_0'', projectId := JStr ''proj_0''\<rparr>
   \<and> fst (snd (run (always ping_learns) (Get ''mem_123'') (test_client, []))) = test_client"
proof -
  let ?c0 = "test_client\<lparr>organizationId := JStr ''org_0'', projectId := JStr ''proj_0''\<rparr>"
  let ?o1 = "run (always ping_learns) Ping (test_client, [])"
  let ?o2 = "run (always ping_learns) Ping (?c0, [])"
  let ?o3 = "run (always ping_learns) (Get ''mem_123'') (test_client, [])"
  have a: "?o1 = (fst ?o1, snd ?o1)" "?o2 = (fst ?o2, snd ?o2)" "?o3 = (fst ?o3, snd ?o3)"
    by simp_all
  have e1: "organizationId (fst (snd ?o1)) = JStr ''org_1''"
       "projectId (fst (snd ?o1)) = JStr ''proj_1''"
    by (simp_all add: ping_def model_defs always_def test_client_def json_ok_def
          ping_learns_def)
  have 1: "fst (snd ?o1) = test_client\<lparr>organizationId := JStr ''org_1'', projectId := JStr ''proj_1''\<rparr>"
    using config_frame[OF a(1)] e1 by simp
  have 2: "fst (snd ?o2) = ?c0"
    using config_frame[OF a(2)] by (cases "fst (snd ?o2)") auto
  have 3: "fst (snd ?o3) = test_client"
    using config_frame[OF a(3)] by simp
  from 1 2 3 show ?thesis by simp
qed

end
